theory Spec2Isabelle
  imports Complex_Main "HOL-Library.Log_Nat"
begin

section \<open>Wallet address validation (EditProfile.tsx, validateWalletAddress)\<close>

text \<open>
  The validator tests its argument against the regular expression literal
  \<^verbatim>\<open>/^0x[a-fA-F0-9]{40}$/\<close>. The pattern is a sequence of atoms, each repeated a fixed
  number of times, anchored at both ends (no flag is given, so \<^verbatim>\<open>$\<close> is the end of the
  input). The embedding keeps the pattern as data and runs a matcher over it.
  Strings are \<^typ>\<open>string\<close>; a JavaScript code unit above 255 has no counterpart here.
\<close>

datatype atom =
    Lit char
  | Class "(char \<times> char) list"

type_synonym pattern = "(atom \<times> nat) list"

definition in_range :: "char \<times> char \<Rightarrow> char \<Rightarrow> bool" where
  "in_range r c = ((of_char (fst r) :: nat) \<le> of_char c \<and> (of_char c :: nat) \<le> of_char (snd r))"

fun match_atom :: "atom \<Rightarrow> char \<Rightarrow> bool" where
  "match_atom (Lit l) c = (c = l)"
| "match_atom (Class rs) c = list_ex (\<lambda>r. in_range r c) rs"

text \<open>\<open>match_times a n s\<close> consumes exactly \<open>n\<close> characters matching \<open>a\<close> and returns the rest.\<close>

fun match_times :: "atom \<Rightarrow> nat \<Rightarrow> string \<Rightarrow> string option" where
  "match_times a 0 s = Some s"
| "match_times a (Suc n) [] = None"
| "match_times a (Suc n) (c # s) = (if match_atom a c then match_times a n s else None)"

fun match_seq :: "pattern \<Rightarrow> string \<Rightarrow> string option" where
  "match_seq [] s = Some s"
| "match_seq ((a, n) # p) s =
     (case match_times a n s of None \<Rightarrow> None | Some rest \<Rightarrow> match_seq p rest)"

text \<open>A pattern anchored with \<^verbatim>\<open>^\<close> and \<^verbatim>\<open>$\<close> must consume the whole input.\<close>

definition regex_test :: "pattern \<Rightarrow> string \<Rightarrow> bool" where
  "regex_test p s = (match_seq p s = Some [])"

definition wallet_regex :: pattern where
  "wallet_regex =
     [(Lit CHR ''0'', 1), (Lit CHR ''x'', 1),
      (Class [(CHR ''a'', CHR ''f''), (CHR ''A'', CHR ''F''), (CHR ''0'', CHR ''9'')], 40)]"

definition validateWalletAddress :: "string \<Rightarrow> bool" where
  "validateWalletAddress address =
     (if address = [] then False else regex_test wallet_regex address)"

text \<open>The specification's wording: the literal prefix, then exactly 40 hexadecimal characters.\<close>

definition is_hex_char :: "char \<Rightarrow> bool" where
  "is_hex_char c = (c \<in> set ''0123456789abcdefABCDEF'')"

definition spec_wallet_address :: "string \<Rightarrow> bool" where
  "spec_wallet_address s =
     (take 2 s = ''0x'' \<and> length (drop 2 s) = 40 \<and> list_all is_hex_char (drop 2 s))"

section \<open>Numbers, errors and the outside world\<close>

text \<open>
  A balance is a JavaScript number: a finite double, kept as the rational it denotes,
  \<open>NaN\<close> (what \<^verbatim>\<open>parseFloat\<close> gives for text that is no number) or an infinity (what
  it gives for text such as \<^verbatim>\<open>1e400\<close>). The claim handler never does arithmetic on a
  balance: it compares it with zero, tests its truthiness and converts it from and to text.
\<close>

datatype jsnum = Fin rat | NaN | PosInf | NegInf

text \<open>\<^verbatim>\<open>x > 0\<close>, \<^verbatim>\<open>x <= 0\<close> and \<^verbatim>\<open>!x\<close> on a number; every comparison with \<open>NaN\<close> is false.\<close>

fun gt_zero :: "jsnum \<Rightarrow> bool" where
  "gt_zero (Fin r) = (0 < r)"
| "gt_zero NaN = False"
| "gt_zero PosInf = True"
| "gt_zero NegInf = False"

fun le_zero :: "jsnum \<Rightarrow> bool" where
  "le_zero (Fin r) = (r \<le> 0)"
| "le_zero NaN = False"
| "le_zero PosInf = False"
| "le_zero NegInf = True"

fun falsy :: "jsnum \<Rightarrow> bool" where
  "falsy (Fin r) = (r = 0)"
| "falsy NaN = True"
| "falsy PosInf = False"
| "falsy NegInf = False"

text \<open>
  A number in the JSON body of a request: \<^verbatim>\<open>JSON.stringify\<close> writes \<open>NaN\<close> and the
  infinities as \<^verbatim>\<open>null\<close>.
\<close>

fun json_number :: "jsnum \<Rightarrow> jsnum option" where
  "json_number (Fin r) = Some (Fin r)"
| "json_number NaN = None"
| "json_number PosInf = None"
| "json_number NegInf = None"

text \<open>
  The source reports a failure as a message shown on the screen. Each constructor stands
  for one place of the source:
  \<^item> \<open>NotAuthenticated\<close>: \<^verbatim>\<open>if (!user) throw new Error('No user found')\<close>;
  \<^item> \<open>ValidationError\<close>: \<^verbatim>\<open>setError('Username is required')\<close>;
  \<^item> \<open>NothingToClaim\<close>: \<^verbatim>\<open>setError('No balance to claim.')\<close>;
  \<^item> \<open>UnsupportedChain\<close>: \<^verbatim>\<open>setError('Only Base chain is supported ...')\<close>;
  \<^item> \<open>RemoteStoreError op\<close>: the error object a call on the \<^verbatim>\<open>profiles\<close> table returned,
    thrown by \<^verbatim>\<open>throw syncError\<close>, \<^verbatim>\<open>throw error\<close> or \<^verbatim>\<open>throw updateError\<close>;
  \<^item> \<open>MintError\<close>: \<^verbatim>\<open>mintTokensToUser\<close> rejected;
  \<^item> \<open>LocalStoreError op\<close>: a call on \<^verbatim>\<open>AsyncStorage\<close> rejected;
  \<^item> \<open>EmailChangeUnverified\<close>: \<^verbatim>\<open>setError('Profile updated but email change requires verification')\<close>.
\<close>

datatype remote_op = SyncWrite | BalanceRead | ResetWrite | ProfileUpsert

datatype local_op = LocalRead | LocalWrite

datatype error =
    NotAuthenticated
  | ValidationError
  | NothingToClaim
  | UnsupportedChain
  | RemoteStoreError remote_op
  | MintError
  | LocalStoreError local_op
  | EmailChangeUnverified

text \<open>The object \<^verbatim>\<open>updates\<close> of \<^verbatim>\<open>updateProfile\<close>; \<^verbatim>\<open>updated_at\<close> is the wall clock and is left out.\<close>

record updates =
  upd_id :: string
  upd_username :: string
  upd_email :: string
  upd_age_range :: string
  upd_gender :: string
  upd_commute_mode :: string
  upd_crypto_chain :: string
  upd_wallet_address :: string

text \<open>A row of the \<^verbatim>\<open>profiles\<close> table: the editable columns and \<^verbatim>\<open>token_balance\<close> (nullable).\<close>

record row =
  columns :: "updates option"
  token_balance :: "jsnum option"

record user =
  user_id :: string
  user_email :: "string option"

text \<open>Every call that leaves the component, in the order it is issued.\<close>

datatype call =
    GetUser
  | GetItem string
  | SetItem string string
  | UpdateBalance string jsnum
  | SelectBalance string
  | Mint string string
  | Upsert updates
  | UpdateUserEmail string

text \<open>
  The world outside the component: \<^verbatim>\<open>AsyncStorage\<close>, the \<^verbatim>\<open>profiles\<close> table keyed by user
  id, the mints confirmed on chain, and the log of calls.
\<close>

record world =
  storage :: "string \<rightharpoonup> string"
  profiles :: "string \<rightharpoonup> row"
  minted :: "(string \<times> string) list"
  calls :: "call list"

text \<open>
  What the collaborators answer during one handler run: the signed-in user, which calls
  fail, and the two built-ins \<^verbatim>\<open>parseFloat\<close> and \<^verbatim>\<open>Number.prototype.toString\<close>, whose
  text format belongs to the runtime.
\<close>

record env =
  auth_user :: "user option"
  getItem_rejects :: bool
  setItem_rejects :: bool
  syncError :: bool
  selectError :: bool
  mint_rejects :: bool
  updateError :: bool
  upsertError :: bool
  emailUpdateError :: bool
  parseFloat :: "string \<Rightarrow> jsnum"
  toString :: "jsnum \<Rightarrow> string"

definition log_call :: "call \<Rightarrow> world \<Rightarrow> world" where
  "log_call c w = w\<lparr>calls := calls w @ [c]\<rparr>"

definition getItem :: "env \<Rightarrow> string \<Rightarrow> world \<Rightarrow> (error + string option) \<times> world" where
  "getItem e k w =
     (let w' = log_call (GetItem k) w
      in if getItem_rejects e then (Inl (LocalStoreError LocalRead), w')
         else (Inr (storage w k), w'))"

definition setItem :: "env \<Rightarrow> string \<Rightarrow> string \<Rightarrow> world \<Rightarrow> (error + unit) \<times> world" where
  "setItem e k v w =
     (let w' = log_call (SetItem k v) w
      in if setItem_rejects e then (Inl (LocalStoreError LocalWrite), w')
         else (Inr (), w'\<lparr>storage := (storage w)(k \<mapsto> v)\<rparr>))"

text \<open>
  \<^verbatim>\<open>supabase.from('profiles').update({ token_balance: v }).eq('id', uid)\<close>: the rows with
  that id get the balance as the JSON body carries it; with no such row nothing changes
  and no error is returned.
\<close>

definition update_token_balance ::
  "bool \<Rightarrow> remote_op \<Rightarrow> string \<Rightarrow> jsnum \<Rightarrow> world \<Rightarrow> (error + unit) \<times> world" where
  "update_token_balance fails op uid v w =
     (let w' = log_call (UpdateBalance uid v) w
      in if fails then (Inl (RemoteStoreError op), w')
         else (Inr (),
               case profiles w uid of
                 None \<Rightarrow> w'
               | Some r \<Rightarrow>
                   w'\<lparr>profiles := (profiles w)(uid \<mapsto> r\<lparr>token_balance := json_number v\<rparr>)\<rparr>))"

text \<open>
  \<^verbatim>\<open>.select('token_balance').eq('id', uid).single()\<close>: an error when the call fails or when
  there is no row; otherwise the column, which may be null.
\<close>

definition select_token_balance :: "env \<Rightarrow> string \<Rightarrow> world \<Rightarrow> (error + jsnum option) \<times> world" where
  "select_token_balance e uid w =
     (let w' = log_call (SelectBalance uid) w
      in if selectError e then (Inl (RemoteStoreError BalanceRead), w')
         else case profiles w uid of
                None \<Rightarrow> (Inl (RemoteStoreError BalanceRead), w')
              | Some r \<Rightarrow> (Inr (token_balance r), w'))"

text \<open>\<^verbatim>\<open>.upsert(updates)\<close>: insert the row if absent, else overwrite the editable columns.\<close>

definition upsert :: "env \<Rightarrow> updates \<Rightarrow> world \<Rightarrow> (error + unit) \<times> world" where
  "upsert e u w =
     (let w' = log_call (Upsert u) w
      in if upsertError e then (Inl (RemoteStoreError ProfileUpsert), w')
         else (Inr (),
               w'\<lparr>profiles := (profiles w)(upd_id u \<mapsto>
                     (case profiles w (upd_id u) of
                        None \<Rightarrow> \<lparr>columns = Some u, token_balance = None\<rparr>
                      | Some r \<Rightarrow> r\<lparr>columns := Some u\<rparr>))\<rparr>))"

text \<open>
  \<^verbatim>\<open>mintTokensToUser\<close> (utils/mintAndClaim): submit \<^verbatim>\<open>contract.mint(userAddress, amount)\<close>
  and wait for the confirmation. The network is outside; what is kept of it is whether
  the call rejects and, when it does not, that the mint is on chain.
\<close>

definition mintTokensToUser :: "env \<Rightarrow> string \<Rightarrow> string \<Rightarrow> world \<Rightarrow> (error + unit) \<times> world" where
  "mintTokensToUser e userAddress amount w =
     (let w' = log_call (Mint userAddress amount) w
      in if mint_rejects e then (Inl MintError, w')
         else (Inr (), w'\<lparr>minted := minted w @ [(userAddress, amount)]\<rparr>))"

text \<open>The calls issued between two worlds, and the kinds of call the properties speak of.\<close>

definition issued :: "world \<Rightarrow> world \<Rightarrow> call list" where
  "issued w w' = drop (length (calls w)) (calls w')"

fun is_mint :: "call \<Rightarrow> bool" where
  "is_mint (Mint _ _) = True"
| "is_mint _ = False"

fun is_zero_write :: "call \<Rightarrow> bool" where
  "is_zero_write (UpdateBalance _ v) = (v = Fin 0)"
| "is_zero_write (SetItem _ _) = True"
| "is_zero_write _ = False"

fun is_upsert :: "call \<Rightarrow> bool" where
  "is_upsert (Upsert _) = True"
| "is_upsert _ = False"

section \<open>The profile screen (EditProfile.tsx)\<close>

text \<open>The \<^verbatim>\<open>useState\<close> cells of the component, with their initial values below.\<close>

record screen =
  isLocationSharingEnabled :: bool
  loading :: bool
  updating :: bool
  username :: string
  email :: string
  ageRange :: string
  gender :: string
  commuteMode :: string
  cryptoChain :: string
  walletAddress :: string
  error :: "error option"
  success :: "string option"
  isAddressValid :: bool
  claiming :: bool

definition initial_screen :: screen where
  "initial_screen =
     \<lparr>isLocationSharingEnabled = True, loading = True, updating = False,
      username = [], email = [], ageRange = [], gender = [], commuteMode = [],
      cryptoChain = ''Base'', walletAddress = [], error = None, success = None,
      isAddressValid = False, claiming = False\<rparr>"

subsection \<open>The claim handler (onPress of the Claim button)\<close>

text \<open>
  Step 1 of the handler: the local balance,
  \<^verbatim>\<open>localBalanceStr ? parseFloat(localBalanceStr) : 0\<close>, where null and the empty text are
  falsy.
\<close>

definition balance_of_text :: "env \<Rightarrow> string option \<Rightarrow> jsnum" where
  "balance_of_text e localBalanceStr =
     (case localBalanceStr of
        None \<Rightarrow> Fin 0
      | Some str \<Rightarrow> if str = [] then Fin 0 else parseFloat e str)"

definition read_local_balance :: "env \<Rightarrow> world \<Rightarrow> (error + jsnum) \<times> world" where
  "read_local_balance e w =
     (case getItem e ''captur_token_balance'' w of
        (Inl err, w') \<Rightarrow> (Inl err, w')
      | (Inr localBalanceStr, w') \<Rightarrow> (Inr (balance_of_text e localBalanceStr), w'))"

text \<open>Step 2: the local balance is written over the remote one, when it is positive.\<close>

definition sync_up :: "env \<Rightarrow> string \<Rightarrow> jsnum \<Rightarrow> world \<Rightarrow> (error + unit) \<times> world" where
  "sync_up e uid localBalance w =
     (if gt_zero localBalance
      then update_token_balance (syncError e) SyncWrite uid localBalance w
      else (Inr (), w))"

text \<open>Step 5: both balances are reset, the remote one first.\<close>

definition reset_balances :: "env \<Rightarrow> string \<Rightarrow> world \<Rightarrow> (error + unit) \<times> world" where
  "reset_balances e uid w =
     (case update_token_balance (updateError e) ResetWrite uid (Fin 0) w of
        (Inl err, w') \<Rightarrow> (Inl err, w')
      | (Inr _, w') \<Rightarrow> setItem e ''captur_token_balance'' ''0'' w')"

text \<open>Steps 3 and 4 and the mint, from the balance read back.\<close>

definition claim_balance ::
  "env \<Rightarrow> screen \<Rightarrow> string \<Rightarrow> jsnum option \<Rightarrow> world \<Rightarrow> (error + unit) \<times> world" where
  "claim_balance e s uid data w =
     (case data of
        None \<Rightarrow> (Inl NothingToClaim, w)
      | Some balance \<Rightarrow>
          if falsy balance \<or> le_zero balance then (Inl NothingToClaim, w)
          else if cryptoChain s \<noteq> ''Base'' then (Inl UnsupportedChain, w)
          else (case mintTokensToUser e (walletAddress s) (toString e balance) w of
                  (Inl err, w') \<Rightarrow> (Inl err, w')
                | (Inr _, w') \<Rightarrow> reset_balances e uid w'))"

text \<open>Steps 1 to 3: the local balance is read and synced, the remote one read back.\<close>

definition fetch_authoritative :: "env \<Rightarrow> string \<Rightarrow> world \<Rightarrow> (error + jsnum option) \<times> world" where
  "fetch_authoritative e uid w =
     (case read_local_balance e w of
        (Inl err, w2) \<Rightarrow> (Inl err, w2)
      | (Inr localBalance, w2) \<Rightarrow>
          (case sync_up e uid localBalance w2 of
             (Inl err, w3) \<Rightarrow> (Inl err, w3)
           | (Inr _, w3) \<Rightarrow> select_token_balance e uid w3))"

definition claim_onPress :: "env \<Rightarrow> screen \<Rightarrow> world \<Rightarrow> (error + unit) \<times> world" where
  "claim_onPress e s w =
     (let w1 = log_call GetUser w
      in case auth_user e of
           None \<Rightarrow> (Inl NotAuthenticated, w1)
         | Some u \<Rightarrow>
             (case fetch_authoritative e (user_id u) w1 of
                (Inl err, w4) \<Rightarrow> (Inl err, w4)
              | (Inr data, w4) \<Rightarrow> claim_balance e s (user_id u) data w4))"

text \<open>
  What the handler does to the screen: before its first \<^verbatim>\<open>await\<close>, and when it settles
  (\<^verbatim>\<open>setError\<close> or \<^verbatim>\<open>setSuccess\<close>, then \<^verbatim>\<open>setClaiming(false)\<close> in \<^verbatim>\<open>finally\<close>).
\<close>

definition claim_begin :: "screen \<Rightarrow> screen" where
  "claim_begin s = s\<lparr>claiming := True, error := None, success := None\<rparr>"

definition claim_settle :: "error + unit \<Rightarrow> screen \<Rightarrow> screen" where
  "claim_settle r s =
     (case r of
        Inl err \<Rightarrow> s\<lparr>error := Some err, claiming := False\<rparr>
      | Inr _ \<Rightarrow> s\<lparr>success := Some ''Tokens claimed and balance reset!'', claiming := False\<rparr>)"

subsection \<open>Saving the profile (updateProfile)\<close>

text \<open>
  \<^verbatim>\<open>String.prototype.trim\<close> removes white space and line terminators at both ends; these
  are the ones a \<^typ>\<open>char\<close> can hold.
\<close>

definition js_whitespace :: "char \<Rightarrow> bool" where
  "js_whitespace c = (c \<in> {CHR 0x09, CHR 0x0A, CHR 0x0B, CHR 0x0C, CHR 0x0D, CHR 0x20, CHR 0xA0})"

definition trim :: "string \<Rightarrow> string" where
  "trim str = rev (dropWhile js_whitespace (rev (dropWhile js_whitespace str)))"

definition make_updates :: "user \<Rightarrow> screen \<Rightarrow> updates" where
  "make_updates u s =
     \<lparr>upd_id = user_id u, upd_username = username s, upd_email = email s,
      upd_age_range = ageRange s, upd_gender = gender s, upd_commute_mode = commuteMode s,
      upd_crypto_chain = cryptoChain s, upd_wallet_address = walletAddress s\<rparr>"

text \<open>The function returns the screen as it is after \<^verbatim>\<open>finally\<close>, and the world.\<close>

definition updateProfile :: "env \<Rightarrow> screen \<Rightarrow> world \<Rightarrow> screen \<times> world" where
  "updateProfile e s w =
     (let s1 = s\<lparr>updating := True, error := None, success := None\<rparr>
      in if trim (username s) = []
         then (s1\<lparr>error := Some ValidationError, updating := False\<rparr>, w)
         else
           (let w1 = log_call GetUser w
            in case auth_user e of
                 None \<Rightarrow> (s1\<lparr>error := Some NotAuthenticated, updating := False\<rparr>, w1)
               | Some u \<Rightarrow>
                   (case upsert e (make_updates u s) w1 of
                      (Inl err, w2) \<Rightarrow> (s1\<lparr>error := Some err, updating := False\<rparr>, w2)
                    | (Inr _, w2) \<Rightarrow>
                        (let s2 = s1\<lparr>success := Some ''Profile updated successfully!''\<rparr>
                         in if Some (email s) \<noteq> user_email u
                            then
                              (let w3 = log_call (UpdateUserEmail (email s)) w2
                               in if emailUpdateError e
                                  then (s2\<lparr>error := Some EmailChangeUnverified, updating := False\<rparr>, w3)
                                  else (s2\<lparr>success := Some ''Profile updated! Please check your email to confirm your new email address.'',
                                           updating := False\<rparr>, w3))
                            else (s2\<lparr>updating := False\<rparr>, w2)))))"

subsection \<open>Loading the profile (getProfile) and the form\<close>

text \<open>
  What \<^verbatim>\<open>getProfile\<close> got: a thrown error, a row (\<^verbatim>\<open>data\<close>, with \<^verbatim>\<open>user.email\<close>), or no row.
  A null column and an empty one are both replaced by the default of \<^verbatim>\<open>x || ''\<close>, so the
  row is given with plain strings.
\<close>

datatype fetched =
    FetchFailed error
  | FetchedRow updates "string option"
  | FetchedNothing

text \<open>
  The effect on \<^verbatim>\<open>walletAddress\<close> re-runs the validator and stores its verdict in
  \<^verbatim>\<open>isAddressValid\<close>.
\<close>

definition setWalletAddress :: "string \<Rightarrow> screen \<Rightarrow> screen" where
  "setWalletAddress a s = s\<lparr>walletAddress := a, isAddressValid := validateWalletAddress a\<rparr>"

definition getProfile_settle :: "fetched \<Rightarrow> screen \<Rightarrow> screen" where
  "getProfile_settle f s =
     (case f of
        FetchFailed err \<Rightarrow> s\<lparr>error := Some err, loading := False\<rparr>
      | FetchedRow d user_mail \<Rightarrow>
          setWalletAddress (upd_wallet_address d)
            (s\<lparr>username := upd_username d,
               email := (if upd_email d \<noteq> [] then upd_email d
                         else case user_mail of None \<Rightarrow> [] | Some m \<Rightarrow> m),
               ageRange := upd_age_range d,
               gender := upd_gender d,
               commuteMode := upd_commute_mode d,
               cryptoChain := ''Base'',
               loading := False\<rparr>)
      | FetchedNothing \<Rightarrow> s\<lparr>cryptoChain := ''Base'', loading := False\<rparr>)"

definition ageRanges :: "string list" where
  "ageRanges = [''Under 18'', ''18-25'', ''26-40'', ''40+'']"

definition genders :: "string list" where
  "genders = [''Male'', ''Female'', ''Other'']"

definition commuteModes :: "string list" where
  "commuteModes = [''Car'', ''Bike'', ''Train'', ''Bus'', ''Walk'']"

subsection \<open>The screen as a transition system\<close>

text \<open>
  One mounted profile screen. An event is a callback of the component running to its next
  \<^verbatim>\<open>await\<close>: a key stroke, a press, or the settling of a pending handler. \<open>in_flight\<close> is
  not a cell of the component: it counts the claim handlers started and not yet settled.
  The form is rendered only when \<^verbatim>\<open>loading\<close> is false, the Claim button only when
  \<^verbatim>\<open>isAddressValid\<close> holds, and a button with \<^verbatim>\<open>disabled\<close> set takes no press. A state
  update made by a callback is rendered before the next event is delivered.
\<close>

record config =
  scr :: screen
  in_flight :: nat

datatype event =
    ProfileFetched fetched
  | LocationSharingLoaded "string option"
  | ChangeUsername string
  | ChangeEmail string
  | SelectAgeRange string
  | SelectGender string
  | SelectCommuteMode string
  | ChangeWalletAddress string
  | PressUpdate
  | UpdateSettled "error option" "string option"
  | PressClaim
  | ClaimSettled "error + unit"

definition initial_config :: config where
  "initial_config = \<lparr>scr = initial_screen, in_flight = 0\<rparr>"

definition on_form :: "config \<Rightarrow> bool \<Rightarrow> (screen \<Rightarrow> screen) \<Rightarrow> config option" where
  "on_form c enabled f =
     (if \<not> loading (scr c) \<and> enabled then Some (c\<lparr>scr := f (scr c)\<rparr>) else None)"

fun step :: "config \<Rightarrow> event \<Rightarrow> config option" where
  "step c (ProfileFetched f) =
     (if loading (scr c) then Some (c\<lparr>scr := getProfile_settle f (scr c)\<rparr>) else None)"
| "step c (LocationSharingLoaded storedValue) =
     Some (c\<lparr>scr := (scr c)\<lparr>isLocationSharingEnabled :=
        (case storedValue of None \<Rightarrow> True | Some v \<Rightarrow> v = ''true'')\<rparr>\<rparr>)"
| "step c (ChangeUsername v) = on_form c True (\<lambda>s. s\<lparr>username := v\<rparr>)"
| "step c (ChangeEmail v) = on_form c True (\<lambda>s. s\<lparr>email := v\<rparr>)"
| "step c (SelectAgeRange v) = on_form c (v \<in> set ageRanges) (\<lambda>s. s\<lparr>ageRange := v\<rparr>)"
| "step c (SelectGender v) = on_form c (v \<in> set genders) (\<lambda>s. s\<lparr>gender := v\<rparr>)"
| "step c (SelectCommuteMode v) = on_form c (v \<in> set commuteModes) (\<lambda>s. s\<lparr>commuteMode := v\<rparr>)"
| "step c (ChangeWalletAddress v) = on_form c True (setWalletAddress v)"
| "step c PressUpdate =
     on_form c (\<not> updating (scr c)) (\<lambda>s. s\<lparr>updating := True, error := None, success := None\<rparr>)"
| "step c (UpdateSettled err ok) =
     (if updating (scr c)
      then Some (c\<lparr>scr := (scr c)\<lparr>error := err, success := ok, updating := False\<rparr>\<rparr>)
      else None)"
| "step c PressClaim =
     (if \<not> loading (scr c) \<and> isAddressValid (scr c) \<and> \<not> claiming (scr c)
      then Some \<lparr>scr = claim_begin (scr c), in_flight = Suc (in_flight c)\<rparr>
      else None)"
| "step c (ClaimSettled r) =
     (if 0 < in_flight c
      then Some \<lparr>scr = claim_settle r (scr c), in_flight = in_flight c - 1\<rparr>
      else None)"

fun run :: "config \<Rightarrow> event list \<Rightarrow> config option" where
  "run c [] = Some c"
| "run c (ev # evs) = (case step c ev of None \<Rightarrow> None | Some c' \<Rightarrow> run c' evs)"

text \<open>The link between the flag and the count that every step keeps.\<close>

definition guard_inv :: "config \<Rightarrow> bool" where
  "guard_inv c = (in_flight c = (if claiming (scr c) then 1 else 0))"

section \<open>The accumulator (Rewards.tsx, the interval callback)\<close>

text \<open>
  The tick does arithmetic, so the rounding of doubles matters. A finite double is the
  rational it denotes; every operation gives the double nearest to the exact result, ties
  to the even significand (IEEE 754 binary64: 53 significant bits, least exponent
  \<open>-1074\<close>, overflow to an infinity from \<open>2 ^ 1024\<close> on). \<open>ilog2 x\<close> is the exponent
  \<open>e\<close> with \<open>2 ^ e \<le> x < 2 ^ (e + 1)\<close> for \<open>x > 0\<close>, and \<open>quantum x\<close> the spacing of
  the doubles around \<open>x\<close>. The sign of zero is not kept; it shows only in a division by
  zero, which the tick does not do.
\<close>

definition ilog2 :: "rat \<Rightarrow> int" where
  "ilog2 x = (if 1 \<le> x then bitlen \<lfloor>x\<rfloor> - 1 else - bitlen (\<lceil>1 / x\<rceil> - 1))"

definition rne :: "rat \<Rightarrow> int" where
  "rne y =
     (let f = \<lfloor>y\<rfloor>; d = y - of_int f
      in if d < 1 / 2 then f else if 1 / 2 < d then f + 1 else if even f then f else f + 1)"

definition quantum :: "rat \<Rightarrow> rat" where
  "quantum x = 2 powi max (ilog2 \<bar>x\<bar> - 52) (- 1074)"

definition rnd :: "rat \<Rightarrow> rat" where
  "rnd x = (if x = 0 then 0 else sgn x * (of_int (rne (\<bar>x\<bar> / quantum x)) * quantum x))"













section \<open>Local persisted state: the keys of the two components\<close>

text \<open>\<^verbatim>\<open>STORAGE_KEYS\<close> of Rewards.tsx and \<^verbatim>\<open>STORAGE_KEYS\<close> of EditProfile.tsx.\<close>

definition Rewards_LOCATION_SHARING :: string where
  "Rewards_LOCATION_SHARING = ''captur_location_sharing''"

definition Rewards_CAPT_BALANCE :: string where
  "Rewards_CAPT_BALANCE = ''captur_token_balance''"

definition EditProfile_LOCATION_SHARING :: string where
  "EditProfile_LOCATION_SHARING = ''location_sharing_enabled''"

definition EditProfile_CAPT_BALANCE :: string where
  "EditProfile_CAPT_BALANCE = ''capt_balance''"

text \<open>Rewards.tsx, \<^verbatim>\<open>saveLocationSharingState\<close>: a rejected write is logged and dropped.\<close>

definition saveLocationSharingState :: "env \<Rightarrow> bool \<Rightarrow> world \<Rightarrow> world" where
  "saveLocationSharingState e enabled w =
     snd (setItem e Rewards_LOCATION_SHARING (if enabled then ''true'' else ''false'') w)"

text \<open>
  Rewards.tsx, the flag part of \<^verbatim>\<open>loadSavedState\<close>: the stored flag, or true (stored at
  once) when there is none; the flag is left as it was when the read rejects.
\<close>

definition Rewards_loadLocationSharing :: "env \<Rightarrow> bool \<Rightarrow> world \<Rightarrow> bool \<times> world" where
  "Rewards_loadLocationSharing e current w =
     (case getItem e Rewards_LOCATION_SHARING w of
        (Inl _, w') \<Rightarrow> (current, w')
      | (Inr None, w') \<Rightarrow> (True, snd (setItem e Rewards_LOCATION_SHARING ''true'' w'))
      | (Inr (Some v), w') \<Rightarrow> (v = ''true'', w'))"

text \<open>EditProfile.tsx, \<^verbatim>\<open>loadLocationSharingState\<close>.\<close>

definition loadLocationSharingState :: "env \<Rightarrow> screen \<Rightarrow> world \<Rightarrow> screen \<times> world" where
  "loadLocationSharingState e s w =
     (case getItem e EditProfile_LOCATION_SHARING w of
        (Inl _, w') \<Rightarrow> (s, w')
      | (Inr None, w') \<Rightarrow> (s\<lparr>isLocationSharingEnabled := True\<rparr>, w')
      | (Inr (Some v), w') \<Rightarrow> (s\<lparr>isLocationSharingEnabled := (v = ''true'')\<rparr>, w'))"

section \<open>A concrete environment\<close>

text \<open>
  A signed-in user, no failing call, and the two built-ins on the texts used in the
  examples below.
\<close>

definition alice :: user where
  "alice = \<lparr>user_id = ''u1'', user_email = Some ''alice@example.org''\<rparr>"

definition quiet_env :: env where
  "quiet_env =
     \<lparr>auth_user = Some alice, getItem_rejects = False, setItem_rejects = False,
      syncError = False, selectError = False, mint_rejects = False, updateError = False,
      upsertError = False, emailUpdateError = False,
      parseFloat = (\<lambda>str. if str = ''12.34'' then Fin (1234 / 100)
                           else if str = ''0'' then Fin 0
                           else if str = ''1e400'' then PosInf else NaN),
      toString = (\<lambda>n. if n = Fin (1234 / 100) then ''12.34''
                        else if n = Fin 0 then ''0'' else ''NaN'')\<rparr>"

definition empty_world :: world where
  "empty_world = \<lparr>storage = Map.empty, profiles = Map.empty, minted = [], calls = []\<rparr>"

definition valid_address :: string where
  "valid_address = ''0xABab1234567890abcdef1234567890ABCDEF1234''"

text \<open>The loaded form with that address typed in, and a world where alice has accrued 12.34.\<close>

definition ready_screen :: screen where
  "ready_screen = setWalletAddress valid_address (initial_screen\<lparr>loading := False\<rparr>)"

definition funded_world :: world where
  "funded_world =
     empty_world\<lparr>storage := [''captur_token_balance'' \<mapsto> ''12.34''],
                 profiles := [''u1'' \<mapsto> \<lparr>columns = None, token_balance = Some (Fin 5)\<rparr>]\<rparr>"

section \<open>The claim handler between its awaits, and several screens on one world\<close>

text \<open>
  The handler is an \<^verbatim>\<open>async\<close> function: it gives control back at each \<^verbatim>\<open>await\<close> and is
  resumed when the awaited call has settled. A stage names the call the handler is waiting
  for, with the local variables it still needs; \<open>advance\<close> performs that call on the
  world and runs the handler's code up to its next \<^verbatim>\<open>await\<close>. The screen passed along is
  the render the handler was created in (its \<^verbatim>\<open>walletAddress\<close> and \<^verbatim>\<open>cryptoChain\<close>).
\<close>

datatype stage =
    AtGetUser
  | AtGetItem user
  | AtSync user jsnum
  | AtSelect user
  | AtMint user jsnum
  | AtReset user
  | AtSetItem
  | Settled "error + unit"

fun advance :: "env \<Rightarrow> screen \<Rightarrow> stage \<Rightarrow> world \<Rightarrow> stage \<times> world" where
  "advance e s AtGetUser w =
     (let w1 = log_call GetUser w
      in case auth_user e of
           None \<Rightarrow> (Settled (Inl NotAuthenticated), w1)
         | Some u \<Rightarrow> (AtGetItem u, w1))"
| "advance e s (AtGetItem u) w =
     (case read_local_balance e w of
        (Inl err, w2) \<Rightarrow> (Settled (Inl err), w2)
      | (Inr localBalance, w2) \<Rightarrow>
          (if gt_zero localBalance then AtSync u localBalance else AtSelect u, w2))"
| "advance e s (AtSync u localBalance) w =
     (case sync_up e (user_id u) localBalance w of
        (Inl err, w3) \<Rightarrow> (Settled (Inl err), w3)
      | (Inr _, w3) \<Rightarrow> (AtSelect u, w3))"
| "advance e s (AtSelect u) w =
     (case select_token_balance e (user_id u) w of
        (Inl err, w4) \<Rightarrow> (Settled (Inl err), w4)
      | (Inr None, w4) \<Rightarrow> (Settled (Inl NothingToClaim), w4)
      | (Inr (Some balance), w4) \<Rightarrow>
          (if falsy balance \<or> le_zero balance then Settled (Inl NothingToClaim)
           else if cryptoChain s \<noteq> ''Base'' then Settled (Inl UnsupportedChain)
           else AtMint u balance, w4))"
| "advance e s (AtMint u balance) w =
     (case mintTokensToUser e (walletAddress s) (toString e balance) w of
        (Inl err, w5) \<Rightarrow> (Settled (Inl err), w5)
      | (Inr _, w5) \<Rightarrow> (AtReset u, w5))"
| "advance e s (AtReset u) w =
     (case update_token_balance (updateError e) ResetWrite (user_id u) (Fin 0) w of
        (Inl err, w6) \<Rightarrow> (Settled (Inl err), w6)
      | (Inr _, w6) \<Rightarrow> (AtSetItem, w6))"
| "advance e s AtSetItem w =
     (case setItem e ''captur_token_balance'' ''0'' w of (r, w7) \<Rightarrow> (Settled r, w7))"
| "advance e s (Settled r) w = (Settled r, w)"

text \<open>A handler left alone: \<open>n\<close> resumptions in a row.\<close>

fun complete :: "nat \<Rightarrow> env \<Rightarrow> screen \<Rightarrow> stage \<Rightarrow> world \<Rightarrow> stage \<times> world" where
  "complete 0 e s st w = (st, w)"
| "complete (Suc n) e s st w = (case advance e s st w of (st', w') \<Rightarrow> complete n e s st' w')"

text \<open>
  A mounted profile screen with the handlers it has started and that have not settled,
  each with the render it closed over. Several screens (a screen mounted again while a
  handler of the old one is still running, a second device of the same user) work on one
  world. The flag \<^verbatim>\<open>claiming\<close> is a \<^verbatim>\<open>useState\<close> cell, so each screen has its own.
\<close>

record mounted =
  cfg :: config
  pending :: "(screen \<times> stage) list"

record system =
  instances :: "mounted list"
  shared :: world

datatype sys_event =
    Ui nat event
  | Resume nat nat

definition mount :: "nat \<Rightarrow> world \<Rightarrow> system" where
  "mount n w = \<lparr>instances = replicate n \<lparr>cfg = initial_config, pending = []\<rparr>, shared = w\<rparr>"

text \<open>
  \<open>Ui i ev\<close> is an event of screen \<open>i\<close>; a press on Claim also starts a handler. A handler
  settles only by being resumed: \<open>Resume i j\<close> resumes the \<open>j\<close>-th pending handler of
  screen \<open>i\<close>, and when it settles the screen takes \<open>ClaimSettled\<close>.
\<close>

fun is_claim_settled :: "event \<Rightarrow> bool" where
  "is_claim_settled (ClaimSettled _) = True"
| "is_claim_settled _ = False"

fun sys_step :: "env \<Rightarrow> system \<Rightarrow> sys_event \<Rightarrow> system option" where
  "sys_step e sys (Ui i ev) =
     (if i < length (instances sys) \<and> \<not> is_claim_settled ev
      then (let inst = instances sys ! i
            in case step (cfg inst) ev of
                 None \<Rightarrow> None
               | Some c' \<Rightarrow>
                   Some (sys\<lparr>instances := (instances sys)
                     [i := \<lparr>cfg = c',
                            pending = (if ev = PressClaim
                                       then pending inst @ [(scr (cfg inst), AtGetUser)]
                                       else pending inst)\<rparr>]\<rparr>))
      else None)"
| "sys_step e sys (Resume i j) =
     (if i < length (instances sys) \<and> j < length (pending (instances sys ! i))
      then (let inst = instances sys ! i;
                s = fst (pending inst ! j)
            in case advance e s (snd (pending inst ! j)) (shared sys) of
                 (Settled r, w') \<Rightarrow>
                   (case step (cfg inst) (ClaimSettled r) of
                      None \<Rightarrow> None
                    | Some c' \<Rightarrow>
                        Some \<lparr>instances = (instances sys)
                                [i := \<lparr>cfg = c',
                                       pending = take j (pending inst) @ drop (Suc j) (pending inst)\<rparr>],
                              shared = w'\<rparr>)
               | (st', w') \<Rightarrow>
                   Some \<lparr>instances = (instances sys)
                           [i := inst\<lparr>pending := (pending inst)[j := (s, st')]\<rparr>],
                         shared = w'\<rparr>)
      else None)"

fun sys_run :: "env \<Rightarrow> system \<Rightarrow> sys_event list \<Rightarrow> system option" where
  "sys_run e sys [] = Some sys"
| "sys_run e sys (ev # evs) =
     (case sys_step e sys ev of None \<Rightarrow> None | Some sys' \<Rightarrow> sys_run e sys' evs)"

text \<open>The claim handlers in flight over all screens, and the mint calls made so far.\<close>

definition in_flight_total :: "system \<Rightarrow> nat" where
  "in_flight_total sys = sum_list (map (\<lambda>inst. length (pending inst)) (instances sys))"

definition mints_of :: "system \<Rightarrow> call list" where
  "mints_of sys = filter is_mint (calls (shared sys))"

text \<open>What every step keeps of each screen: the flag matches its own pending handlers.\<close>

definition inst_inv :: "mounted \<Rightarrow> bool" where
  "inst_inv inst = (guard_inv (cfg inst) \<and> length (pending inst) = in_flight (cfg inst))"

text \<open>
  Two screens of alice: both load, get the address typed in and take a press on Claim;
  then both handlers run, each up to its mint before either resets the balance.
\<close>

definition two_claims_started :: "sys_event list" where
  "two_claims_started =
     [Ui 0 (ProfileFetched FetchedNothing), Ui 0 (ChangeWalletAddress valid_address),
      Ui 1 (ProfileFetched FetchedNothing), Ui 1 (ChangeWalletAddress valid_address),
      Ui 0 PressClaim, Ui 1 PressClaim]"

definition two_claims_settled :: "sys_event list" where
  "two_claims_settled =
     two_claims_started @
     [Resume 0 0, Resume 0 0, Resume 0 0, Resume 0 0,
      Resume 1 0, Resume 1 0, Resume 1 0, Resume 1 0,
      Resume 0 0, Resume 1 0,
      Resume 0 0, Resume 0 0, Resume 1 0, Resume 1 0]"

section \<open>Properties of the wallet address validator\<close>

lemma class_hex:
  "match_atom (Class [(CHR ''a'', CHR ''f''), (CHR ''A'', CHR ''F''), (CHR ''0'', CHR ''9'')]) c
   = is_hex_char c"
proof -
  define n :: nat where "n = of_char c"
  have eq: "\<And>d. (c = d) = (n = of_char d)" unfolding n_def by simp
  have "is_hex_char c =
      ((97 \<le> n \<and> n \<le> 102) \<or> (65 \<le> n \<and> n \<le> 70) \<or> (48 \<le> n \<and> n \<le> 57))"
    unfolding is_hex_char_def by (simp add: eq) arith
  then show ?thesis by (simp add: in_range_def n_def)
qed

lemma match_times_all:
  "match_times a n s =
     (if n \<le> length s \<and> list_all (match_atom a) (take n s) then Some (drop n s) else None)"
  by (induction a n s rule: match_times.induct) auto

lemma match_seq_last: "(match_seq [(a, n)] s = Some []) = (match_times a n s = Some [])"
  by (simp split: option.splits)

lemma match_hex_40:
  "(match_times (Class [(CHR ''a'', CHR ''f''), (CHR ''A'', CHR ''F''), (CHR ''0'', CHR ''9'')]) 40 r
      = Some []) = (length r = 40 \<and> list_all is_hex_char r)"
proof -
  have hex: "match_atom (Class [(CHR ''a'', CHR ''f''), (CHR ''A'', CHR ''F''), (CHR ''0'', CHR ''9'')])
      = is_hex_char"
    by (rule ext) (rule class_hex)
  show ?thesis unfolding match_times_all hex by auto
qed

lemma regex_test_wallet: "regex_test wallet_regex s = spec_wallet_address s"
proof (cases s)
  case Nil
  then show ?thesis
    by (simp add: regex_test_def wallet_regex_def spec_wallet_address_def)
next
  case outer: (Cons a t)
  show ?thesis
  proof (cases t)
    case Nil
    with outer show ?thesis
      by (simp add: regex_test_def wallet_regex_def spec_wallet_address_def)
  next
    case (Cons b r)
    have "match_seq wallet_regex (a # b # r) =
        (if a = CHR ''0'' \<and> b = CHR ''x''
         then match_seq [(Class [(CHR ''a'', CHR ''f''), (CHR ''A'', CHR ''F''), (CHR ''0'', CHR ''9'')], 40)] r
         else None)"
      by (simp add: wallet_regex_def)
    then show ?thesis
      using outer Cons
      by (auto simp add: regex_test_def spec_wallet_address_def match_seq_last match_hex_40
          simp del: match_seq.simps)
  qed
qed

text \<open>
  C1. The validator rejects the empty string, and accepts a string exactly when it is the
  prefix \<open>0x\<close> followed by exactly 40 hexadecimal characters of either case.
\<close>

theorem C1_validateWalletAddress:
  "\<not> validateWalletAddress [] \<and> validateWalletAddress address = spec_wallet_address address"
  by (auto simp: validateWalletAddress_def regex_test_wallet spec_wallet_address_def)

theorem C1_validateWalletAddress_witness:
  "validateWalletAddress ''0xABab1234567890abcdef1234567890ABCDEF1234'' \<and>
   \<not> validateWalletAddress ''0x123'' \<and> \<not> validateWalletAddress ''''"
  using C1_validateWalletAddress [of "''0xABab1234567890abcdef1234567890ABCDEF1234''"]
    C1_validateWalletAddress [of "''0x123''"]
  by (simp add: spec_wallet_address_def is_hex_char_def)

section \<open>The calls on the outside world\<close>

lemmas op_defs = getItem_def setItem_def update_token_balance_def select_token_balance_def
  mintTokensToUser_def log_call_def upsert_def

lemma log_call_keeps:
  "storage (log_call c w) = storage w" "profiles (log_call c w) = profiles w"
  "minted (log_call c w) = minted w"
  by (simp_all add: log_call_def)



section \<open>Steps 1 to 3 of the claim handler: read, sync, read back\<close>

lemma fetch_effects:
  assumes "fetch_authoritative e uid w = (res, w4)"
  shows "\<exists>cs. calls w4 = calls w @ cs \<and> (\<forall>c\<in>set cs. \<not> is_mint c \<and> \<not> is_zero_write c)"
    and "storage w4 = storage w" and "minted w4 = minted w"
    and "profiles w4 = (if getItem_rejects e then profiles w
           else profiles (snd (sync_up e uid (balance_of_text e (storage w ''captur_token_balance'')) w)))"
  using assms
  by (auto simp: fetch_authoritative_def read_local_balance_def sync_up_def op_defs Let_def 
      split: if_splits option.splits prod.splits sum.splits)

lemma fetch_row:
  assumes "fetch_authoritative e uid w = (Inr data, w4)"
  shows "\<exists>r. profiles w4 uid = Some r \<and> token_balance r = data"
  using assms
  by (auto simp: fetch_authoritative_def read_local_balance_def sync_up_def op_defs Let_def 
      split: if_splits option.splits prod.splits sum.splits)

lemma valid_address_ok: "validateWalletAddress valid_address"
  by (simp add: valid_address_def validateWalletAddress_def regex_test_wallet
      spec_wallet_address_def is_hex_char_def)

lemmas demo_defs = quiet_env_def alice_def funded_world_def empty_world_def ready_screen_def
  setWalletAddress_def initial_screen_def

lemma fetch_funded:
  "fetch_authoritative quiet_env ''u1'' (log_call GetUser funded_world) =
     (Inr (Some (Fin (1234 / 100))),
      funded_world\<lparr>profiles := [''u1'' \<mapsto> \<lparr>columns = None, token_balance = Some (Fin (1234 / 100))\<rparr>],
                   calls := [GetUser, GetItem ''captur_token_balance'',
                             UpdateBalance ''u1'' (Fin (1234 / 100)), SelectBalance ''u1'']\<rparr>)"
  by (simp add: fetch_authoritative_def read_local_balance_def balance_of_text_def sync_up_def
      op_defs demo_defs Let_def)

section \<open>The claim handler as a whole\<close>

lemma claim_balance_ok:
  assumes "gt_zero b" "cryptoChain s = ''Base''" "\<not> mint_rejects e" "\<not> updateError e" "\<not> setItem_rejects e"
    and "profiles w4 uid = Some r"
  shows "\<exists>w'. claim_balance e s uid (Some b) w4 = (Inr (), w') \<and>
      calls w' = calls w4 @ [Mint (walletAddress s) (toString e b), UpdateBalance uid (Fin 0),
                             SetItem ''captur_token_balance'' ''0''] \<and>
      minted w' = minted w4 @ [(walletAddress s, toString e b)] \<and>
      profiles w' uid = Some (r\<lparr>token_balance := Some (Fin 0)\<rparr>) \<and>
      storage w' ''captur_token_balance'' = Some ''0''"
  using assms
  by (cases b) (auto simp: claim_balance_def reset_balances_def op_defs Let_def)

text \<open>
  C2. When the user is signed in, the balance read back from the remote profile is a
  positive \<open>b\<close>, the address is valid, the chain is Base, and the mint and the two resets
  succeed, the handler succeeds; it issues exactly one mint call, for the screen's wallet
  address and \<open>b\<close> rendered as text; after the mint it writes 0 to the remote balance and
  then \<open>0\<close> to the local one, and both end at 0.
\<close>

theorem C2_claim_success:
  assumes "auth_user e = Some u"
    and "fetch_authoritative e (user_id u) (log_call GetUser w) = (Inr (Some b), w4)"
    and "gt_zero b"
    and "validateWalletAddress (walletAddress s)"
    and "cryptoChain s = ''Base''"
    and "\<not> mint_rejects e" and "\<not> updateError e" and "\<not> setItem_rejects e"
    and "claim_onPress e s w = (res, w')"
  shows "res = Inr () \<and>
     filter is_mint (issued w w') = [Mint (walletAddress s) (toString e b)] \<and>
     issued w4 w' = [Mint (walletAddress s) (toString e b), UpdateBalance (user_id u) (Fin 0),
                     SetItem ''captur_token_balance'' ''0''] \<and>
     minted w' = minted w @ [(walletAddress s, toString e b)] \<and>
     map_option token_balance (profiles w' (user_id u)) = Some (Some (Fin 0)) \<and>
     storage w' ''captur_token_balance'' = Some ''0''"
proof -
  let ?w1 = "log_call GetUser w"
  from fetch_effects(1)[OF assms(2)] obtain cs where
    cs: "calls w4 = calls ?w1 @ cs" "\<forall>c\<in>set cs. \<not> is_mint c \<and> \<not> is_zero_write c" by blast
  from fetch_row[OF assms(2)] obtain r where r: "profiles w4 (user_id u) = Some r" by blast
  from claim_balance_ok[OF assms(3) assms(5-8) r] obtain w'' where
    cb: "claim_balance e s (user_id u) (Some b) w4 = (Inr (), w'')"
    "calls w'' = calls w4 @ [Mint (walletAddress s) (toString e b), UpdateBalance (user_id u) (Fin 0),
                             SetItem ''captur_token_balance'' ''0'']"
    "minted w'' = minted w4 @ [(walletAddress s, toString e b)]"
    "profiles w'' (user_id u) = Some (r\<lparr>token_balance := Some (Fin 0)\<rparr>)"
    "storage w'' ''captur_token_balance'' = Some ''0''" by blast
  have run: "claim_onPress e s w = (Inr (), w'')"
    using assms(1,2) cb(1) by (simp add: claim_onPress_def Let_def)
  with assms(9) have eq: "res = Inr ()" "w' = w''" by simp_all
  have nomint: "filter is_mint cs = []" using cs(2) by (simp add: filter_empty_conv)
  have "calls w' = calls w @ (GetUser # cs @ [Mint (walletAddress s) (toString e b),
          UpdateBalance (user_id u) (Fin 0), SetItem ''captur_token_balance'' ''0''])"
    using cb(2) cs(1) eq by (simp add: log_call_def)
  then have "filter is_mint (issued w w') = [Mint (walletAddress s) (toString e b)]"
    using nomint by (simp add: issued_def)
  moreover have "minted w4 = minted w"
    using fetch_effects(3)[OF assms(2)] by (simp add: log_call_def)
  ultimately show ?thesis
    using eq cb by (simp add: issued_def)
qed

theorem C2_claim_success_witness:
  "auth_user quiet_env = Some alice \<and> gt_zero (Fin (1234 / 100)) \<and>
   validateWalletAddress (walletAddress ready_screen) \<and>
   fst (fetch_authoritative quiet_env (user_id alice) (log_call GetUser funded_world))
     = Inr (Some (Fin (1234 / 100))) \<and>
   fst (claim_onPress quiet_env ready_screen funded_world) = Inr () \<and>
   filter is_mint (issued funded_world (snd (claim_onPress quiet_env ready_screen funded_world)))
     = [Mint valid_address ''12.34''] \<and>
   map_option token_balance (profiles (snd (claim_onPress quiet_env ready_screen funded_world)) ''u1'')
     = Some (Some (Fin 0)) \<and>
   storage (snd (claim_onPress quiet_env ready_screen funded_world)) ''captur_token_balance''
     = Some ''0''"
proof -
  have u: "auth_user quiet_env = Some alice" by (simp add: quiet_env_def)
  have f: "fetch_authoritative quiet_env (user_id alice) (log_call GetUser funded_world) =
     (Inr (Some (Fin (1234 / 100))),
      funded_world\<lparr>profiles := [''u1'' \<mapsto> \<lparr>columns = None, token_balance = Some (Fin (1234 / 100))\<rparr>],
                   calls := [GetUser, GetItem ''captur_token_balance'',
                             UpdateBalance ''u1'' (Fin (1234 / 100)), SelectBalance ''u1'']\<rparr>)"
    using fetch_funded by (simp add: alice_def)
  have g: "gt_zero (Fin (1234 / 100))" by simp
  have v: "validateWalletAddress (walletAddress ready_screen)"
    using valid_address_ok by (simp add: ready_screen_def setWalletAddress_def)
  have c: "cryptoChain ready_screen = ''Base''" by (simp add: demo_defs)
  have q: "\<not> mint_rejects quiet_env" "\<not> updateError quiet_env" "\<not> setItem_rejects quiet_env"
    by (simp_all add: quiet_env_def)
  have r: "claim_onPress quiet_env ready_screen funded_world =
     (fst (claim_onPress quiet_env ready_screen funded_world),
      snd (claim_onPress quiet_env ready_screen funded_world))" by simp
  show ?thesis
    using C2_claim_success [OF u f g v c q r] u g v f
    by (simp add: quiet_env_def alice_def ready_screen_def setWalletAddress_def)
qed

text \<open>
  C3. When the balance read back is absent, not a number, or at most 0, the handler stops
  with \<open>NothingToClaim\<close> in the world the read left: no mint call, no write of 0 to the
  remote balance, no write to the local one.
\<close>

theorem C3_nothing_to_claim:
  assumes "auth_user e = Some u"
    and "fetch_authoritative e (user_id u) (log_call GetUser w) = (Inr data, w4)"
    and "case data of None \<Rightarrow> True | Some b \<Rightarrow> le_zero b \<or> falsy b"
    and "claim_onPress e s w = (res, w')"
  shows "res = Inl NothingToClaim \<and> w' = w4 \<and>
     (\<forall>c\<in>set (issued w w'). \<not> is_mint c \<and> \<not> is_zero_write c) \<and>
     minted w' = minted w \<and> storage w' = storage w"
proof -
  let ?w1 = "log_call GetUser w"
  from fetch_effects(1)[OF assms(2)] obtain cs where
    cs: "calls w4 = calls ?w1 @ cs" "\<forall>c\<in>set cs. \<not> is_mint c \<and> \<not> is_zero_write c" by blast
  have cb: "claim_balance e s (user_id u) data w4 = (Inl NothingToClaim, w4)"
    using assms(3) by (auto simp: claim_balance_def split: option.splits)
  have "claim_onPress e s w = (Inl NothingToClaim, w4)"
    using assms(1,2) cb by (simp add: claim_onPress_def Let_def)
  with assms(4) have eq: "res = Inl NothingToClaim" "w' = w4" by simp_all
  have "issued w w' = GetUser # cs" using cs(1) eq by (simp add: issued_def log_call_def)
  moreover have "minted w4 = minted w" "storage w4 = storage w"
    using fetch_effects(2,3)[OF assms(2)] by (simp_all add: log_call_def)
  ultimately show ?thesis using eq cs(2) by simp
qed

theorem C3_nothing_to_claim_witness:
  "auth_user quiet_env = Some alice \<and>
   fst (fetch_authoritative quiet_env (user_id alice)
         (log_call GetUser (funded_world\<lparr>storage := Map.empty,
            profiles := [''u1'' \<mapsto> \<lparr>columns = None, token_balance = Some (Fin 0)\<rparr>]\<rparr>)))
     = Inr (Some (Fin 0)) \<and> le_zero (Fin 0) \<and>
   claim_onPress quiet_env ready_screen (funded_world\<lparr>storage := Map.empty,
            profiles := [''u1'' \<mapsto> \<lparr>columns = None, token_balance = Some (Fin 0)\<rparr>]\<rparr>)
    = (Inl NothingToClaim, (funded_world\<lparr>storage := Map.empty,
            profiles := [''u1'' \<mapsto> \<lparr>columns = None, token_balance = Some (Fin 0)\<rparr>],
            calls := [GetUser, GetItem ''captur_token_balance'', SelectBalance ''u1'']\<rparr>))"
proof -
  let ?w = "funded_world\<lparr>storage := Map.empty,
            profiles := [''u1'' \<mapsto> \<lparr>columns = None, token_balance = Some (Fin 0)\<rparr>]\<rparr>"
  let ?w4 = "funded_world\<lparr>storage := Map.empty,
            profiles := [''u1'' \<mapsto> \<lparr>columns = None, token_balance = Some (Fin 0)\<rparr>],
            calls := [GetUser, GetItem ''captur_token_balance'', SelectBalance ''u1'']\<rparr>"
  have u: "auth_user quiet_env = Some alice" by (simp add: quiet_env_def)
  have f: "fetch_authoritative quiet_env (user_id alice) (log_call GetUser ?w) = (Inr (Some (Fin 0)), ?w4)"
    by (simp add: fetch_authoritative_def read_local_balance_def balance_of_text_def sync_up_def
      op_defs demo_defs Let_def)
  have z: "case Some (Fin 0) of None \<Rightarrow> True | Some b \<Rightarrow> le_zero b \<or> falsy b" by simp
  have r: "claim_onPress quiet_env ready_screen ?w =
     (fst (claim_onPress quiet_env ready_screen ?w), snd (claim_onPress quiet_env ready_screen ?w))"
    by simp
  from C3_nothing_to_claim [OF u f z r] have "claim_onPress quiet_env ready_screen ?w = (Inl NothingToClaim, ?w4)"
    by (simp add: prod_eq_iff)
  then show ?thesis using u f by simp
qed



lemma claim_mint_rejected:
  "claim_onPress (quiet_env\<lparr>mint_rejects := True\<rparr>) ready_screen funded_world =
     (Inl MintError,
      funded_world\<lparr>profiles := [''u1'' \<mapsto> \<lparr>columns = None, token_balance = Some (Fin (1234 / 100))\<rparr>],
                   calls := [GetUser, GetItem ''captur_token_balance'',
                             UpdateBalance ''u1'' (Fin (1234 / 100)), SelectBalance ''u1'',
                             Mint valid_address ''12.34'']\<rparr>)"
  by (simp add: claim_onPress_def claim_balance_def fetch_authoritative_def read_local_balance_def
      balance_of_text_def sync_up_def op_defs demo_defs Let_def)


subsection \<open>The sync step inside the handler\<close>

lemma fetch_sync:
  assumes "\<not> getItem_rejects e" and "fetch_authoritative e uid w1 = (r4, w4)"
    and "lb = balance_of_text e (storage w1 ''captur_token_balance'')"
  shows "calls w4 = calls w1 @ GetItem ''captur_token_balance'' #
           (if gt_zero lb then UpdateBalance uid lb # (if syncError e then [] else [SelectBalance uid])
            else [SelectBalance uid])"
    and "profiles w4 = (if gt_zero lb \<and> \<not> syncError e
            then (case profiles w1 uid of None \<Rightarrow> profiles w1
                  | Some r \<Rightarrow> (profiles w1)(uid \<mapsto> r\<lparr>token_balance := json_number lb\<rparr>))
            else profiles w1)"
    and "\<And>data. r4 = Inr data \<Longrightarrow> gt_zero lb \<Longrightarrow> data = json_number lb"
  using assms
  by (auto simp: fetch_authoritative_def read_local_balance_def sync_up_def op_defs Let_def
      split: if_splits option.splits prod.splits sum.splits)

lemma claim_balance_calls:
  assumes "claim_balance e s uid data w4 = (res, w')"
  shows "\<exists>ds. calls w' = calls w4 @ ds \<and>
          (\<forall>a m. Mint a m \<in> set ds \<longrightarrow> (\<exists>b. data = Some b \<and> gt_zero b \<and> m = toString e b)) \<and>
          (\<forall>i v. UpdateBalance i v \<in> set ds \<longrightarrow> v = Fin 0) \<and>
          profiles w' = (if res = Inr () \<or> res = Inl (LocalStoreError LocalWrite)
             then (case profiles w4 uid of None \<Rightarrow> profiles w4
                   | Some r \<Rightarrow> (profiles w4)(uid \<mapsto> r\<lparr>token_balance := Some (Fin 0)\<rparr>))
             else profiles w4)"
proof (cases data)
  case None
  with assms show ?thesis by (auto simp: claim_balance_def)
next
  case (Some b)
  show ?thesis
  proof (cases "falsy b \<or> le_zero b")
    case True
    with assms Some show ?thesis by (auto simp: claim_balance_def)
  next
    case False
    then have "gt_zero b" by (cases b) auto
    with assms Some False show ?thesis
      by (auto simp: claim_balance_def reset_balances_def op_defs Let_def
          split: if_splits option.splits prod.splits sum.splits)
  qed
qed

text \<open>
  C4. In every run of the claim handler that gets past the user lookup and the local read:
  when the local balance is above 0 the third call is the update of the user's remote
  balance with the local balance, and when that update succeeds the user's row holds what
  the request carried (the local balance itself when it is finite), whatever it held before,
  until the reset writes 0; a mint, if one is issued, is for the local balance, not for a
  sum. When the local balance is not above 0 the third call is the read-back, and the only
  update of a remote balance the run can issue is the reset to 0.
\<close>

theorem C4_sync_up_overwrites:
  assumes "auth_user e = Some u" and "\<not> getItem_rejects e"
    and "claim_onPress e s w = (res, w')"
    and "localBalance = balance_of_text e (storage w ''captur_token_balance'')"
  shows
   "(gt_zero localBalance \<longrightarrow>
       take 3 (issued w w') =
         [GetUser, GetItem ''captur_token_balance'', UpdateBalance (user_id u) localBalance] \<and>
       (\<not> syncError e \<longrightarrow> (\<forall>r. profiles w (user_id u) = Some r \<longrightarrow>
           profiles w' (user_id u) =
             Some (r\<lparr>token_balance :=
                     (if res = Inr () \<or> res = Inl (LocalStoreError LocalWrite)
                      then Some (Fin 0) else json_number localBalance)\<rparr>))) \<and>
       (\<forall>a m. Mint a m \<in> set (issued w w') \<longrightarrow>
           json_number localBalance = Some localBalance \<and> m = toString e localBalance)) \<and>
    (\<not> gt_zero localBalance \<longrightarrow>
       take 3 (issued w w') =
         [GetUser, GetItem ''captur_token_balance'', SelectBalance (user_id u)] \<and>
       (\<forall>i v. UpdateBalance i v \<in> set (issued w w') \<longrightarrow> v = Fin 0) \<and>
       (\<not> (res = Inr () \<or> res = Inl (LocalStoreError LocalWrite)) \<longrightarrow> profiles w' = profiles w))"
proof -
  let ?w1 = "log_call GetUser w"
  let ?uid = "user_id u"
  obtain r4 w4 where f: "fetch_authoritative e ?uid ?w1 = (r4, w4)"
    by (cases "fetch_authoritative e ?uid ?w1")
  have lb: "localBalance = balance_of_text e (storage ?w1 ''captur_token_balance'')"
    using assms(4) by (simp add: log_call_def)
  note fs = fetch_sync[OF assms(2) f lb]
  have c4: "calls w4 = calls w @ GetUser # GetItem ''captur_token_balance'' #
           (if gt_zero localBalance
            then UpdateBalance ?uid localBalance # (if syncError e then [] else [SelectBalance ?uid])
            else [SelectBalance ?uid])"
    using fs(1) by (simp add: log_call_def)
  have p4: "profiles w4 = (if gt_zero localBalance \<and> \<not> syncError e
            then (case profiles w ?uid of None \<Rightarrow> profiles w
                  | Some r \<Rightarrow> (profiles w)(?uid \<mapsto> r\<lparr>token_balance := json_number localBalance\<rparr>))
            else profiles w)"
    using fs(2) by (auto simp: log_call_keeps split: option.splits)
  show ?thesis
  proof (cases r4)
    case (Inl err)
    with assms(1,3) f have eq: "res = Inl err" "w' = w4"
      by (simp_all add: claim_onPress_def Let_def)
    have ne: "err \<noteq> LocalStoreError LocalWrite"
      using f Inl
      by (auto simp: fetch_authoritative_def read_local_balance_def sync_up_def op_defs Let_def
          split: if_splits option.splits prod.splits sum.splits)
    have "\<not> gt_zero localBalance \<Longrightarrow> profiles w' = profiles w"
      using p4 eq by simp
    then show ?thesis using eq ne c4 p4
      by (auto simp: issued_def split: if_splits)
  next
    case (Inr data)
    with assms(1,3) f have cb: "claim_balance e s ?uid data w4 = (res, w')"
      by (simp add: claim_onPress_def Let_def)
    from claim_balance_calls[OF cb] obtain ds where
      ds: "calls w' = calls w4 @ ds"
      and mint: "\<forall>a m. Mint a m \<in> set ds \<longrightarrow> (\<exists>b. data = Some b \<and> gt_zero b \<and> m = toString e b)"
      and upd: "\<forall>i v. UpdateBalance i v \<in> set ds \<longrightarrow> v = Fin 0"
      and pr: "profiles w' = (if res = Inr () \<or> res = Inl (LocalStoreError LocalWrite)
             then (case profiles w4 ?uid of None \<Rightarrow> profiles w4
                   | Some r \<Rightarrow> (profiles w4)(?uid \<mapsto> r\<lparr>token_balance := Some (Fin 0)\<rparr>))
             else profiles w4)" by blast
    have nosync: "\<not> (gt_zero localBalance \<and> syncError e)"
      using f Inr assms(2) lb
      by (auto simp: fetch_authoritative_def read_local_balance_def sync_up_def op_defs Let_def
          split: if_splits option.splits prod.splits sum.splits)
    show ?thesis
    proof (cases "gt_zero localBalance")
      case True
      with nosync have ns: "\<not> syncError e" by simp
      have data: "data = json_number localBalance" using fs(3)[OF Inr True] .
      have iss: "issued w w' = GetUser # GetItem ''captur_token_balance'' #
            UpdateBalance ?uid localBalance # SelectBalance ?uid # ds"
        using c4 ds True ns by (simp add: issued_def)
      have m: "\<forall>a m. Mint a m \<in> set (issued w w') \<longrightarrow>
           json_number localBalance = Some localBalance \<and> m = toString e localBalance"
      proof (intro allI impI)
        fix a m assume "Mint a m \<in> set (issued w w')"
        then have "Mint a m \<in> set ds" using iss by simp
        with mint obtain b where "data = Some b" "m = toString e b" by blast
        with data show "json_number localBalance = Some localBalance \<and> m = toString e localBalance"
          by (cases localBalance) auto
      qed
      have p: "\<forall>r. profiles w ?uid = Some r \<longrightarrow>
           profiles w' ?uid =
             Some (r\<lparr>token_balance :=
                     (if res = Inr () \<or> res = Inl (LocalStoreError LocalWrite)
                      then Some (Fin 0) else json_number localBalance)\<rparr>)"
        using pr p4 True ns by auto
      from True iss m p ns show ?thesis by simp
    next
      case False
      have iss: "issued w w' = GetUser # GetItem ''captur_token_balance'' # SelectBalance ?uid # ds"
        using c4 ds False by (simp add: issued_def)
      have "\<not> (res = Inr () \<or> res = Inl (LocalStoreError LocalWrite)) \<longrightarrow> profiles w' = profiles w"
        using pr p4 False by simp
      with False iss upd show ?thesis by auto
    qed
  qed
qed

lemma claim_unfunded_mint_rejected:
  "claim_onPress (quiet_env\<lparr>mint_rejects := True\<rparr>) ready_screen (funded_world\<lparr>storage := Map.empty\<rparr>) =
     (Inl MintError,
      funded_world\<lparr>storage := Map.empty,
                   calls := [GetUser, GetItem ''captur_token_balance'', SelectBalance ''u1'',
                             Mint valid_address ''NaN'']\<rparr>)"
  by (simp add: claim_onPress_def claim_balance_def fetch_authoritative_def read_local_balance_def
      balance_of_text_def sync_up_def op_defs demo_defs Let_def)

theorem C4_sync_up_overwrites_witness:
  "gt_zero (balance_of_text (quiet_env\<lparr>mint_rejects := True\<rparr>)
      (storage funded_world ''captur_token_balance'')) \<and>
   map_option token_balance (profiles funded_world ''u1'') = Some (Some (Fin 5)) \<and>
   take 3 (issued funded_world
      (snd (claim_onPress (quiet_env\<lparr>mint_rejects := True\<rparr>) ready_screen funded_world))) =
     [GetUser, GetItem ''captur_token_balance'', UpdateBalance ''u1'' (Fin (1234 / 100))] \<and>
   map_option token_balance
     (profiles (snd (claim_onPress (quiet_env\<lparr>mint_rejects := True\<rparr>) ready_screen funded_world)) ''u1'')
     = Some (Some (Fin (1234 / 100))) \<and>
   \<not> gt_zero (balance_of_text (quiet_env\<lparr>mint_rejects := True\<rparr>)
      (storage (funded_world\<lparr>storage := Map.empty\<rparr>) ''captur_token_balance'')) \<and>
   take 3 (issued (funded_world\<lparr>storage := Map.empty\<rparr>)
      (snd (claim_onPress (quiet_env\<lparr>mint_rejects := True\<rparr>) ready_screen
             (funded_world\<lparr>storage := Map.empty\<rparr>)))) =
     [GetUser, GetItem ''captur_token_balance'', SelectBalance ''u1''] \<and>
   profiles (snd (claim_onPress (quiet_env\<lparr>mint_rejects := True\<rparr>) ready_screen
             (funded_world\<lparr>storage := Map.empty\<rparr>))) = profiles funded_world \<and>
   balance_of_text (quiet_env\<lparr>mint_rejects := True\<rparr>)
      (storage (funded_world\<lparr>storage := [''captur_token_balance'' \<mapsto> ''1e400'']\<rparr>)
         ''captur_token_balance'') = PosInf \<and>
   map_option token_balance
     (profiles (snd (claim_onPress (quiet_env\<lparr>mint_rejects := True\<rparr>) ready_screen
        (funded_world\<lparr>storage := [''captur_token_balance'' \<mapsto> ''1e400'']\<rparr>))) ''u1'')
     = Some None"
proof -
  let ?e = "quiet_env\<lparr>mint_rejects := True\<rparr>"
  let ?w0 = "funded_world\<lparr>storage := Map.empty\<rparr>"
  have u: "auth_user ?e = Some alice" and g: "\<not> getItem_rejects ?e" and sy: "\<not> syncError ?e"
    by (simp_all add: quiet_env_def)
  have id: "user_id alice = ''u1''" by (simp add: alice_def)
  have b1: "balance_of_text ?e (storage funded_world ''captur_token_balance'') = Fin (1234 / 100)"
    by (simp add: balance_of_text_def demo_defs)
  have b2: "balance_of_text ?e (storage ?w0 ''captur_token_balance'') = Fin 0"
    by (simp add: balance_of_text_def demo_defs)
  have r: "profiles funded_world ''u1'' = Some \<lparr>columns = None, token_balance = Some (Fin 5)\<rparr>"
    "profiles ?w0 = profiles funded_world"
    by (simp_all add: demo_defs)
  have res1: "fst (claim_onPress ?e ready_screen funded_world) = Inl MintError"
    by (simp add: claim_mint_rejected)
  have res2: "fst (claim_onPress ?e ready_screen ?w0) = Inl MintError"
    by (simp add: claim_unfunded_mint_rejected)
  have p1: "claim_onPress ?e ready_screen funded_world =
      (Inl MintError, snd (claim_onPress ?e ready_screen funded_world))"
    using res1 by (simp add: prod_eq_iff)
  have p2: "claim_onPress ?e ready_screen ?w0 = (Inl MintError, snd (claim_onPress ?e ready_screen ?w0))"
    using res2 by (simp add: prod_eq_iff)
  let ?w9 = "funded_world\<lparr>storage := [''captur_token_balance'' \<mapsto> ''1e400'']\<rparr>"
  have b9: "balance_of_text ?e (storage ?w9 ''captur_token_balance'') = PosInf"
    by (simp add: balance_of_text_def demo_defs)
  have r9: "profiles ?w9 ''u1'' = Some \<lparr>columns = None, token_balance = Some (Fin 5)\<rparr>"
    by (simp add: demo_defs)
  have res9: "fst (claim_onPress ?e ready_screen ?w9) = Inl NothingToClaim"
    by (simp add: claim_onPress_def claim_balance_def fetch_authoritative_def read_local_balance_def
      balance_of_text_def sync_up_def op_defs demo_defs Let_def)
  have p9: "claim_onPress ?e ready_screen ?w9 =
      (Inl NothingToClaim, snd (claim_onPress ?e ready_screen ?w9))"
    using res9 by (simp add: prod_eq_iff)
  note c = C4_sync_up_overwrites [OF u g p9 b9 [symmetric]]
  from c have c1: "profiles (snd (claim_onPress ?e ready_screen ?w9)) ''u1'' =
       Some (\<lparr>columns = None, token_balance = Some (Fin 5)\<rparr>\<lparr>token_balance := None\<rparr>)"
    using sy r9 by (simp add: id)
  note a = C4_sync_up_overwrites [OF u g p1 b1 [symmetric]]
  note b = C4_sync_up_overwrites [OF u g p2 b2 [symmetric]]
  from a have a1: "take 3 (issued funded_world (snd (claim_onPress ?e ready_screen funded_world))) =
     [GetUser, GetItem ''captur_token_balance'', UpdateBalance ''u1'' (Fin (1234 / 100))]"
    and a2: "profiles (snd (claim_onPress ?e ready_screen funded_world)) ''u1'' =
       Some (\<lparr>columns = None, token_balance = Some (Fin 5)\<rparr>\<lparr>token_balance := Some (Fin (1234 / 100))\<rparr>)"
    using sy r(1) by (simp_all add: id)
  from b have b3: "take 3 (issued ?w0 (snd (claim_onPress ?e ready_screen ?w0))) =
     [GetUser, GetItem ''captur_token_balance'', SelectBalance ''u1'']"
    and b4: "profiles (snd (claim_onPress ?e ready_screen ?w0)) = profiles ?w0"
    by (simp_all add: id)
  show ?thesis using a1 a2 b3 b4 b1 b2 r b9 c1 by simp
qed

section \<open>Saving the profile\<close>

lemma trim_empty: "(trim str = []) = list_all js_whitespace str"
proof -
  define d where "d = dropWhile js_whitespace str"
  have "(dropWhile js_whitespace (rev d) = []) = (d = [])"
  proof (cases "d = []")
    case True
    then show ?thesis by simp
  next
    case False
    then have "\<not> js_whitespace (hd d)"
      unfolding d_def by (rule hd_dropWhile)
    moreover have "hd d \<in> set (rev d)"
      using False by simp
    ultimately have "\<not> (\<forall>x\<in>set (rev d). js_whitespace x)" by blast
    then have "dropWhile js_whitespace (rev d) \<noteq> []"
      by (simp only: dropWhile_eq_Nil_conv not_False_eq_True)
    with False show ?thesis by simp
  qed
  then have "(trim str = []) = (dropWhile js_whitespace str = [])"
    by (simp add: trim_def d_def del: dropWhile_eq_Nil_conv)
  then show ?thesis
    by (simp add: list_all_iff)
qed

text \<open>
  C9. A save with an empty or white-space-only username fails with \<open>ValidationError\<close>
  and leaves the world untouched. Otherwise, with nobody signed in the save fails with
  \<open>NotAuthenticated\<close> after the user lookup alone; with a user signed in, exactly one
  upsert follows the lookup, of the form's fields under the user's id, and the
  email change is requested only after it, when the upsert succeeded and the email differs.
\<close>

theorem C9_updateProfile_validation:
  assumes "updateProfile e s w = (s', w')"
  shows "(list_all js_whitespace (username s) \<longrightarrow> error s' = Some ValidationError \<and> w' = w) \<and>
         (\<not> list_all js_whitespace (username s) \<longrightarrow>
            (case auth_user e of
               None \<Rightarrow> error s' = Some NotAuthenticated \<and> issued w w' = [GetUser]
             | Some u \<Rightarrow>
                 upd_id (make_updates u s) = user_id u \<and>
                 issued w w' = [GetUser, Upsert (make_updates u s)] @
                   (if \<not> upsertError e \<and> Some (email s) \<noteq> user_email u
                    then [UpdateUserEmail (email s)] else [])))"
  using assms
  by (auto simp: updateProfile_def trim_empty Let_def upsert_def log_call_def issued_def
      make_updates_def split: option.splits if_splits)

lemma save_bob:
  "updateProfile quiet_env (ready_screen\<lparr>username := ''bob'', email := ''bob@example.org''\<rparr>)
      empty_world =
   (fst (updateProfile quiet_env (ready_screen\<lparr>username := ''bob'', email := ''bob@example.org''\<rparr>)
      empty_world),
    snd (updateProfile quiet_env (ready_screen\<lparr>username := ''bob'', email := ''bob@example.org''\<rparr>)
      empty_world))"
  by simp

lemma save_blank:
  "updateProfile quiet_env (ready_screen\<lparr>username := ''  ''\<rparr>) empty_world =
   (fst (updateProfile quiet_env (ready_screen\<lparr>username := ''  ''\<rparr>) empty_world),
    snd (updateProfile quiet_env (ready_screen\<lparr>username := ''  ''\<rparr>) empty_world))"
  by simp

theorem C9_updateProfile_validation_witness:
  "\<not> list_all js_whitespace ''bob'' \<and> list_all js_whitespace ''  '' \<and>
   auth_user quiet_env = Some alice \<and>
   issued empty_world
     (snd (updateProfile quiet_env (ready_screen\<lparr>username := ''bob'', email := ''bob@example.org''\<rparr>)
        empty_world))
    = [GetUser,
       Upsert (make_updates alice (ready_screen\<lparr>username := ''bob'', email := ''bob@example.org''\<rparr>)),
       UpdateUserEmail ''bob@example.org''] \<and>
   error (fst (updateProfile quiet_env (ready_screen\<lparr>username := ''  ''\<rparr>) empty_world))
    = Some ValidationError \<and>
   snd (updateProfile quiet_env (ready_screen\<lparr>username := ''  ''\<rparr>) empty_world) = empty_world"
proof -
  have a: "\<not> list_all js_whitespace ''bob''" "list_all js_whitespace ''  ''"
    by (simp_all add: js_whitespace_def)
  have u: "auth_user quiet_env = Some alice" "\<not> upsertError quiet_env"
    "user_email alice = Some ''alice@example.org''"
    by (simp_all add: quiet_env_def alice_def)
  have n: "username (ready_screen\<lparr>username := ''bob'', email := ''bob@example.org''\<rparr>) = ''bob''"
    "email (ready_screen\<lparr>username := ''bob'', email := ''bob@example.org''\<rparr>) = ''bob@example.org''"
    "username (ready_screen\<lparr>username := ''  ''\<rparr>) = ''  ''"
    by simp_all
  from C9_updateProfile_validation [OF save_bob] C9_updateProfile_validation [OF save_blank] a u n show ?thesis
    by simp
qed

text \<open>
  A username that is not blank does not by itself bring an upsert: with nobody signed in,
  saving the name \<open>bob\<close> issues none.
\<close>

theorem C9_updateProfile_counterexample:
  "trim (username (ready_screen\<lparr>username := ''bob''\<rparr>)) \<noteq> [] \<and>
   filter is_upsert (calls (snd (updateProfile (quiet_env\<lparr>auth_user := None\<rparr>)
       (ready_screen\<lparr>username := ''bob''\<rparr>) empty_world))) = []"
  by (simp add: updateProfile_def trim_def js_whitespace_def Let_def log_call_def demo_defs)

section \<open>Invariants of the profile screen\<close>

lemma step_chain:
  assumes "step c ev = Some c'" and "cryptoChain (scr c) = ''Base''"
  shows "cryptoChain (scr c') = ''Base''"
  using assms
  by (cases ev)
     (auto simp: on_form_def getProfile_settle_def setWalletAddress_def claim_begin_def
        claim_settle_def split: if_splits fetched.splits sum.splits)

lemma run_chain:
  assumes "run c evs = Some c'" and "cryptoChain (scr c) = ''Base''"
  shows "cryptoChain (scr c') = ''Base''"
  using assms
proof (induction evs arbitrary: c)
  case Nil
  then show ?case by simp
next
  case (Cons ev evs)
  then obtain c1 where s: "step c ev = Some c1" and r: "run c1 evs = Some c'"
    by (auto split: option.splits)
  from Cons.IH[OF r step_chain[OF s Cons.prems(2)]] show ?case .
qed

lemma fetch_not_chain: "fst (fetch_authoritative e uid w) \<noteq> Inl UnsupportedChain"
  by (auto simp: fetch_authoritative_def read_local_balance_def sync_up_def op_defs Let_def
      split: if_splits option.splits prod.splits sum.splits)

lemma claim_balance_not_chain:
  "cryptoChain s = ''Base'' \<Longrightarrow> fst (claim_balance e s uid data w) \<noteq> Inl UnsupportedChain"
  by (auto simp: claim_balance_def reset_balances_def op_defs Let_def
      split: if_splits option.splits prod.splits sum.splits)

lemma claim_not_chain:
  assumes "cryptoChain s = ''Base''"
  shows "fst (claim_onPress e s w) \<noteq> Inl UnsupportedChain"
proof (cases "auth_user e")
  case None
  then show ?thesis by (simp add: claim_onPress_def Let_def)
next
  case (Some u)
  obtain r4 w4 where f: "fetch_authoritative e (user_id u) (log_call GetUser w) = (r4, w4)"
    by (cases "fetch_authoritative e (user_id u) (log_call GetUser w)")
  show ?thesis
  proof (cases r4)
    case (Inl err)
    with fetch_not_chain[of e "user_id u" "log_call GetUser w"] f Some show ?thesis
      by (simp add: claim_onPress_def Let_def)
  next
    case (Inr data)
    with claim_balance_not_chain[OF assms, of e "user_id u" data w4] f Some show ?thesis
      by (simp add: claim_onPress_def Let_def)
  qed
qed

text \<open>
  C10. In every state the profile screen can reach, the chain is \<open>Base\<close>, so the claim
  handler started there never fails with \<open>UnsupportedChain\<close>.
\<close>

theorem C10_chain_always_base:
  assumes "run initial_config evs = Some c"
  shows "cryptoChain (scr c) = ''Base'' \<and> fst (claim_onPress e (scr c) w) \<noteq> Inl UnsupportedChain"
proof -
  have "cryptoChain (scr initial_config) = ''Base''"
    by (simp add: initial_config_def initial_screen_def)
  from run_chain[OF assms this] show ?thesis by (simp add: claim_not_chain)
qed

lemma run_to_claim:
  "run initial_config [ProfileFetched FetchedNothing, ChangeWalletAddress valid_address, PressClaim]
     = Some \<lparr>scr = ready_screen\<lparr>claiming := True\<rparr>, in_flight = 1\<rparr>"
  by (simp add: initial_config_def on_form_def getProfile_settle_def claim_begin_def
      setWalletAddress_def valid_address_ok ready_screen_def initial_screen_def)

theorem C10_chain_always_base_witness:
  "run initial_config [ProfileFetched FetchedNothing, ChangeWalletAddress valid_address, PressClaim]
     = Some \<lparr>scr = ready_screen\<lparr>claiming := True\<rparr>, in_flight = 1\<rparr> \<and>
   cryptoChain (ready_screen\<lparr>claiming := True\<rparr>) = ''Base'' \<and>
   fst (claim_onPress quiet_env (ready_screen\<lparr>claiming := True\<rparr>) funded_world)
     \<noteq> Inl UnsupportedChain"
proof -
  have sel: "scr \<lparr>scr = ready_screen\<lparr>claiming := True\<rparr>, in_flight = 1\<rparr>
      = ready_screen\<lparr>claiming := True\<rparr>" by simp
  from C10_chain_always_base [OF run_to_claim, of quiet_env funded_world] run_to_claim
  show ?thesis unfolding sel by blast
qed

lemma claim_mints_once: "length (filter is_mint (issued w (snd (claim_onPress e s w)))) \<le> 1"
proof (cases "auth_user e")
  case None
  then show ?thesis by (simp add: claim_onPress_def Let_def issued_def log_call_def)
next
  case (Some u)
  let ?w1 = "log_call GetUser w"
  obtain r4 w4 where f: "fetch_authoritative e (user_id u) ?w1 = (r4, w4)"
    by (cases "fetch_authoritative e (user_id u) ?w1")
  from fetch_effects(1)[OF f] obtain cs where
    cs: "calls w4 = calls ?w1 @ cs" "\<forall>c\<in>set cs. \<not> is_mint c \<and> \<not> is_zero_write c" by blast
  have nomint: "filter is_mint cs = []" using cs(2) by (simp add: filter_empty_conv)
  show ?thesis
  proof (cases r4)
    case (Inl err)
    with f Some have "snd (claim_onPress e s w) = w4" by (simp add: claim_onPress_def Let_def)
    then show ?thesis using cs(1) nomint by (simp add: issued_def log_call_def)
  next
    case (Inr data)
    with f Some have eq: "snd (claim_onPress e s w) = snd (claim_balance e s (user_id u) data w4)"
      by (simp add: claim_onPress_def Let_def)
    have "\<exists>ds. calls (snd (claim_balance e s (user_id u) data w4)) = calls w4 @ ds \<and>
            length (filter is_mint ds) \<le> 1"
      by (auto simp: claim_balance_def reset_balances_def op_defs Let_def
          split: if_splits option.splits prod.splits sum.splits)
    then obtain ds where "calls (snd (claim_onPress e s w)) = calls w4 @ ds"
      "length (filter is_mint ds) \<le> 1" using eq by auto
    then show ?thesis using cs(1) nomint by (simp add: issued_def log_call_def)
  qed
qed

lemma complete_claim:
  "complete 7 e s AtGetUser w = (Settled (fst (claim_onPress e s w)), snd (claim_onPress e s w))"
  by (auto simp: eval_nat_numeral claim_onPress_def fetch_authoritative_def claim_balance_def
      reset_balances_def read_local_balance_def sync_up_def op_defs Let_def
      split: if_splits option.splits prod.splits sum.splits)

lemma step_in_flight:
  assumes "step c ev = Some c'" and "guard_inv c"
  shows "guard_inv c' \<and>
     in_flight c' = (if ev = PressClaim then Suc (in_flight c)
                     else if is_claim_settled ev then in_flight c - 1 else in_flight c) \<and>
     (is_claim_settled ev \<longrightarrow> 0 < in_flight c)"
  using assms
  by (cases ev)
     (auto simp: guard_inv_def on_form_def getProfile_settle_def setWalletAddress_def claim_begin_def
        claim_settle_def split: if_splits fetched.splits sum.splits)

lemma sys_step_inv:
  assumes "sys_step e sys ev = Some sys'"
    and "\<forall>inst\<in>set (instances sys). inst_inv inst"
  shows "(\<forall>inst\<in>set (instances sys'). inst_inv inst) \<and>
         length (instances sys') = length (instances sys)"
proof (cases ev)
  case (Ui i uev)
  with assms(1) obtain c' where
    i: "i < length (instances sys)" and ns: "\<not> is_claim_settled uev"
    and st: "step (cfg (instances sys ! i)) uev = Some c'"
    and sys': "sys' = sys\<lparr>instances := (instances sys)
                     [i := \<lparr>cfg = c',
                            pending = (if uev = PressClaim
                                       then pending (instances sys ! i) @ [(scr (cfg (instances sys ! i)), AtGetUser)]
                                       else pending (instances sys ! i))\<rparr>]\<rparr>"
    by (auto simp: Let_def split: if_splits option.splits)
  from assms(2) i have inv: "inst_inv (instances sys ! i)" by simp
  from step_in_flight[OF st] inv ns have
    "inst_inv \<lparr>cfg = c', pending = (if uev = PressClaim
                                       then pending (instances sys ! i) @ [(scr (cfg (instances sys ! i)), AtGetUser)]
                                       else pending (instances sys ! i))\<rparr>"
    by (auto simp: inst_inv_def)
  with assms(2) sys' show ?thesis
    by (auto dest!: set_update_subset_insert[THEN subsetD])
next
  case (Resume i j)
  with assms(1) have i: "i < length (instances sys)" and j: "j < length (pending (instances sys ! i))"
    by (auto split: if_splits)
  let ?inst = "instances sys ! i"
  from assms(2) i have inv: "inst_inv ?inst" by simp
  obtain st' w' where adv: "advance e (fst (pending ?inst ! j)) (snd (pending ?inst ! j)) (shared sys) = (st', w')"
    by (cases "advance e (fst (pending ?inst ! j)) (snd (pending ?inst ! j)) (shared sys)")
  show ?thesis
  proof (cases "\<exists>r. st' = Settled r")
    case True
    then obtain r where r: "st' = Settled r" by blast
    with assms(1) Resume i j adv obtain c' where
      st: "step (cfg ?inst) (ClaimSettled r) = Some c'"
      and sys': "sys' = \<lparr>instances = (instances sys)
                                [i := \<lparr>cfg = c',
                                       pending = take j (pending ?inst) @ drop (Suc j) (pending ?inst)\<rparr>],
                              shared = w'\<rparr>"
      by (auto simp: Let_def split: option.splits)
    from step_in_flight[OF st] inv j have
      "inst_inv \<lparr>cfg = c', pending = take j (pending ?inst) @ drop (Suc j) (pending ?inst)\<rparr>"
      by (auto simp: inst_inv_def)
    with assms(2) sys' show ?thesis
      by (auto dest!: set_update_subset_insert[THEN subsetD])
  next
    case False
    with assms(1) Resume i j adv have
      sys': "sys' = \<lparr>instances = (instances sys)
                           [i := ?inst\<lparr>pending := (pending ?inst)[j := (fst (pending ?inst ! j), st')]\<rparr>],
                         shared = w'\<rparr>"
      by (cases st') (auto simp: Let_def)
    from inv have "inst_inv (?inst\<lparr>pending := (pending ?inst)[j := (fst (pending ?inst ! j), st')]\<rparr>)"
      by (simp add: inst_inv_def)
    with assms(2) sys' show ?thesis
      by (auto dest!: set_update_subset_insert[THEN subsetD])
  qed
qed

lemma sys_run_inv:
  assumes "sys_run e sys evs = Some sys'"
    and "\<forall>inst\<in>set (instances sys). inst_inv inst"
  shows "(\<forall>inst\<in>set (instances sys'). inst_inv inst) \<and>
         length (instances sys') = length (instances sys)"
  using assms
proof (induction evs arbitrary: sys)
  case Nil
  then show ?case by simp
next
  case (Cons ev evs)
  then obtain sys1 where s: "sys_step e sys ev = Some sys1" and r: "sys_run e sys1 evs = Some sys'"
    by (auto split: option.splits)
  from sys_step_inv[OF s Cons.prems(2)] Cons.IH[OF r] show ?case by simp
qed

text \<open>
  C6. On any number of profile screens sharing one world, each screen has at most one of
  its own claim handlers in flight; it has one exactly when its \<open>claiming\<close> is set, and
  while it has one a press on its Claim button is not accepted. A handler resumed seven
  times has run \<open>claim_onPress\<close> to its end, and one run issues at most one mint call.
\<close>

theorem C6_single_claim_in_flight:
  assumes "sys_run e (mount n w) evs = Some sys'" and "i < n"
  shows "length (pending (instances sys' ! i)) \<le> 1 \<and>
         (pending (instances sys' ! i) \<noteq> []) = claiming (scr (cfg (instances sys' ! i))) \<and>
         (pending (instances sys' ! i) \<noteq> [] \<longrightarrow> sys_step e sys' (Ui i PressClaim) = None) \<and>
         complete 7 e0 s0 AtGetUser w0
           = (Settled (fst (claim_onPress e0 s0 w0)), snd (claim_onPress e0 s0 w0)) \<and>
         length (filter is_mint (issued w0 (snd (claim_onPress e0 s0 w0)))) \<le> 1"
proof -
  have "\<forall>inst\<in>set (instances (mount n w)). inst_inv inst"
    by (simp add: mount_def inst_inv_def guard_inv_def initial_config_def initial_screen_def)
  from sys_run_inv[OF assms(1) this] have
    all: "\<forall>inst\<in>set (instances sys'). inst_inv inst" and len: "length (instances sys') = n"
    by (simp_all add: mount_def)
  from all len assms(2) have "inst_inv (instances sys' ! i)" by simp
  then have a: "length (pending (instances sys' ! i)) \<le> 1"
    and b: "(pending (instances sys' ! i) \<noteq> []) = claiming (scr (cfg (instances sys' ! i)))"
    by (auto simp: inst_inv_def guard_inv_def split: if_splits)
  from b have c: "pending (instances sys' ! i) \<noteq> [] \<longrightarrow> sys_step e sys' (Ui i PressClaim) = None"
    by (simp add: Let_def)
  from a b c show ?thesis using complete_claim claim_mints_once by blast
qed

lemmas sys_defs = initial_config_def on_form_def getProfile_settle_def claim_begin_def
  claim_settle_def setWalletAddress_def valid_address_ok initial_screen_def

lemma started:
  "sys_run quiet_env (mount 2 funded_world) two_claims_started =
     Some \<lparr>instances =
             [\<lparr>cfg = \<lparr>scr = ready_screen\<lparr>claiming := True\<rparr>, in_flight = 1\<rparr>,
               pending = [(ready_screen, AtGetUser)]\<rparr>,
              \<lparr>cfg = \<lparr>scr = ready_screen\<lparr>claiming := True\<rparr>, in_flight = 1\<rparr>,
               pending = [(ready_screen, AtGetUser)]\<rparr>],
           shared = funded_world\<rparr>"
  by (simp add: two_claims_started_def mount_def eval_nat_numeral sys_defs ready_screen_def Let_def)

theorem C6_single_claim_in_flight_witness:
  "sys_run quiet_env (mount 2 funded_world) two_claims_started =
     Some \<lparr>instances =
             [\<lparr>cfg = \<lparr>scr = ready_screen\<lparr>claiming := True\<rparr>, in_flight = 1\<rparr>,
               pending = [(ready_screen, AtGetUser)]\<rparr>,
              \<lparr>cfg = \<lparr>scr = ready_screen\<lparr>claiming := True\<rparr>, in_flight = 1\<rparr>,
               pending = [(ready_screen, AtGetUser)]\<rparr>],
           shared = funded_world\<rparr> \<and>
   sys_step quiet_env
     \<lparr>instances =
             [\<lparr>cfg = \<lparr>scr = ready_screen\<lparr>claiming := True\<rparr>, in_flight = 1\<rparr>,
               pending = [(ready_screen, AtGetUser)]\<rparr>,
              \<lparr>cfg = \<lparr>scr = ready_screen\<lparr>claiming := True\<rparr>, in_flight = 1\<rparr>,
               pending = [(ready_screen, AtGetUser)]\<rparr>],
           shared = funded_world\<rparr> (Ui 0 PressClaim) = None"
proof -
  have i: "(0::nat) < 2" by simp
  have p: "pending (instances \<lparr>instances =
             [\<lparr>cfg = \<lparr>scr = ready_screen\<lparr>claiming := True\<rparr>, in_flight = 1\<rparr>,
               pending = [(ready_screen, AtGetUser)]\<rparr>,
              \<lparr>cfg = \<lparr>scr = ready_screen\<lparr>claiming := True\<rparr>, in_flight = 1\<rparr>,
               pending = [(ready_screen, AtGetUser)]\<rparr>],
           shared = funded_world\<rparr> ! 0) \<noteq> []" by simp
  from C6_single_claim_in_flight [OF started i, of quiet_env ready_screen funded_world] p started
  show ?thesis by blast
qed

lemma sys_run_append:
  "sys_run e sys (xs @ ys) =
     (case sys_run e sys xs of None \<Rightarrow> None | Some sys1 \<Rightarrow> sys_run e sys1 ys)"
  by (induction xs arbitrary: sys) (auto split: option.splits)

lemma settled_mints:
  "map_option mints_of
     (sys_run quiet_env
        \<lparr>instances =
             [\<lparr>cfg = \<lparr>scr = ready_screen\<lparr>claiming := True\<rparr>, in_flight = 1\<rparr>,
               pending = [(ready_screen, AtGetUser)]\<rparr>,
              \<lparr>cfg = \<lparr>scr = ready_screen\<lparr>claiming := True\<rparr>, in_flight = 1\<rparr>,
               pending = [(ready_screen, AtGetUser)]\<rparr>],
           shared = funded_world\<rparr>
        [Resume 0 0, Resume 0 0, Resume 0 0, Resume 0 0,
         Resume 1 0, Resume 1 0, Resume 1 0, Resume 1 0,
         Resume 0 0, Resume 1 0,
         Resume 0 0, Resume 0 0, Resume 1 0, Resume 1 0])
   = Some [Mint valid_address ''12.34'', Mint valid_address ''12.34'']"
  by (simp add: mints_of_def eval_nat_numeral Let_def read_local_balance_def balance_of_text_def
      sync_up_def op_defs demo_defs claim_settle_def)

text \<open>
  The flag does not bound the handlers of one user: with two screens of alice, both
  handlers are in flight after the two presses, and run as scheduled they mint the same
  12.34 twice.
\<close>

theorem C6_single_claim_in_flight_counterexample:
  "map_option in_flight_total (sys_run quiet_env (mount 2 funded_world) two_claims_started) = Some 2 \<and>
   map_option mints_of (sys_run quiet_env (mount 2 funded_world) two_claims_settled)
     = Some [Mint valid_address ''12.34'', Mint valid_address ''12.34'']"
  using settled_mints
  by (simp add: two_claims_settled_def sys_run_append started in_flight_total_def)

section \<open>The accumulator in double arithmetic\<close>

lemma ilog2_bounds:
  assumes "0 < x"
  shows "2 powi ilog2 x \<le> x" and "x < 2 powi (ilog2 x + 1)"
proof -
  have "2 powi ilog2 x \<le> x \<and> x < 2 powi (ilog2 x + 1)"
  proof (cases "1 \<le> x")
    case True
    then have f: "0 < \<lfloor>x\<rfloor>" by simp
    from bitlen_bounds[OF f] have lo: "2 ^ nat (bitlen \<lfloor>x\<rfloor> - 1) \<le> \<lfloor>x\<rfloor>"
      and hi: "\<lfloor>x\<rfloor> < 2 ^ nat (bitlen \<lfloor>x\<rfloor>)" by simp_all
    have b1: "1 \<le> bitlen \<lfloor>x\<rfloor>" using f bitlen_eq_zero_iff[of "\<lfloor>x\<rfloor>"] bitlen_nonneg[of "\<lfloor>x\<rfloor>"] by linarith
    have "(2::rat) powi (bitlen \<lfloor>x\<rfloor> - 1) = of_int (2 ^ nat (bitlen \<lfloor>x\<rfloor> - 1))"
      using b1 by (simp add: power_int_def)
    also have "\<dots> \<le> of_int \<lfloor>x\<rfloor>" using lo by (simp only: of_int_le_iff)
    also have "\<dots> \<le> x" by simp
    finally have A: "2 powi (bitlen \<lfloor>x\<rfloor> - 1) \<le> x" .
    have "\<lfloor>x\<rfloor> + 1 \<le> 2 ^ nat (bitlen \<lfloor>x\<rfloor>)" using hi by simp
    then have "(of_int (\<lfloor>x\<rfloor> + 1) :: rat) \<le> of_int (2 ^ nat (bitlen \<lfloor>x\<rfloor>))"
      by (simp only: of_int_le_iff)
    moreover have "x < of_int (\<lfloor>x\<rfloor> + 1)" by simp linarith
    moreover have "(of_int (2 ^ nat (bitlen \<lfloor>x\<rfloor>)) :: rat) = 2 powi (bitlen \<lfloor>x\<rfloor>)"
      using b1 by (simp add: power_int_def)
    ultimately have B: "x < 2 powi (bitlen \<lfloor>x\<rfloor>)" by linarith
    from A B True show ?thesis by (simp add: ilog2_def)
  next
    case False
    define y where "y = 1 / x"
    define m where "m = \<lceil>y\<rceil> - 1"
    have y1: "1 < y" using False assms by (simp add: y_def)
    then have m0: "0 < m" unfolding m_def by linarith
    from bitlen_bounds[OF m0] have lo: "2 ^ nat (bitlen m - 1) \<le> m"
      and hi: "m < 2 ^ nat (bitlen m)" by simp_all
    have b1: "1 \<le> bitlen m" using m0 bitlen_eq_zero_iff[of m] bitlen_nonneg[of m] by linarith
    have my: "of_int m < y" unfolding m_def by linarith
    have ym: "y \<le> of_int (m + 1)" unfolding m_def by simp
    have "(2::rat) ^ nat (bitlen m - 1) = of_int (2 ^ nat (bitlen m - 1))" by simp
    also have "\<dots> \<le> of_int m" using lo by (simp only: of_int_le_iff)
    finally have L: "(2::rat) ^ nat (bitlen m - 1) < y" using my by linarith
    have "m + 1 \<le> 2 ^ nat (bitlen m)" using hi by simp
    then have "(of_int (m + 1) :: rat) \<le> of_int (2 ^ nat (bitlen m))" by (simp only: of_int_le_iff)
    then have U: "y \<le> (2::rat) ^ nat (bitlen m)" using ym by simp
    have xy: "x = 1 / y" using assms by (simp add: y_def)
    have ypos: "0 < y" using y1 by simp
    have A: "2 powi (- bitlen m) \<le> x"
    proof -
      have "(2::rat) powi (- bitlen m) = 1 / 2 ^ nat (bitlen m)"
        using b1 by (simp add: power_int_def field_simps)
      also have "\<dots> \<le> 1 / y" using U ypos by (simp add: frac_le)
      finally show ?thesis using xy by simp
    qed
    have B: "x < 2 powi (- bitlen m + 1)"
    proof -
      have "(2::rat) powi (- bitlen m + 1) = 1 / 2 ^ nat (bitlen m - 1)"
        using b1 by (cases "bitlen m = 1") (auto simp: power_int_def field_simps nat_diff_distrib)
      moreover have "1 / y < 1 / (2::rat) ^ nat (bitlen m - 1)"
        using L by (simp add: frac_less2)
      ultimately show ?thesis using xy by simp
    qed
    from A B False show ?thesis by (simp add: ilog2_def y_def m_def)
  qed
  then show "2 powi ilog2 x \<le> x" and "x < 2 powi (ilog2 x + 1)" by simp_all
qed

lemma ilog2_unique:
  assumes "0 < x" and "2 powi e \<le> x" and "x < 2 powi (e + 1)"
  shows "ilog2 x = e"
proof -
  note b = ilog2_bounds[OF assms(1)]
  have "(2::rat) powi e < 2 powi (ilog2 x + 1)" using assms(2) b(2) by linarith
  then have "e < ilog2 x + 1"
    by (metis not_less one_less_numeral_iff power_int_increasing semiring_norm(76) less_imp_le)
  moreover have "(2::rat) powi ilog2 x < 2 powi (e + 1)" using assms(3) b(1) by linarith
  then have "ilog2 x < e + 1"
    by (metis not_less one_less_numeral_iff power_int_increasing semiring_norm(76) less_imp_le)
  ultimately show ?thesis by simp
qed



lemma rne_of_int [simp]: "rne (of_int n) = n"
  by (simp add: rne_def)




lemma quantum_pos [simp]: "0 < quantum x"
  by (simp add: quantum_def)

lemma quantum_nonneg [simp]: "0 \<le> quantum x"
  by (simp add: quantum_def)

lemma rnd_pos: "0 < x \<Longrightarrow> rnd x = of_int (rne (x / quantum x)) * quantum x"
  by (simp add: rnd_def)

lemma quantum_at:
  assumes "0 < x" and "2 powi e \<le> x" and "x < 2 powi (e + 1)"
  shows "quantum x = 2 powi max (e - 52) (- 1074)"
  using ilog2_unique[OF assms] assms(1) by (simp add: quantum_def)








lemma rnd_at:
  assumes "0 < x" and "2 powi e \<le> x" and "x < 2 powi (e + 1)"
  shows "rnd x = of_int (rne (x / 2 powi max (e - 52) (- 1074))) * 2 powi max (e - 52) (- 1074)"
  using rnd_pos[OF assms(1)] quantum_at[OF assms] by simp
































section \<open>The keys of the local store\<close>

text \<open>
  C8. The two components do not share their keys: after the rewards screen has stored the
  flag as false, the rewards screen reads false back, but the profile screen, which looks
  under its own key, finds nothing and shows true.
\<close>

theorem C8_flag_keys_differ:
  "fst (Rewards_loadLocationSharing quiet_env True
          (saveLocationSharingState quiet_env False empty_world)) = False \<and>
   isLocationSharingEnabled (fst (loadLocationSharingState quiet_env initial_screen
          (saveLocationSharingState quiet_env False empty_world))) = True \<and>
   EditProfile_LOCATION_SHARING \<noteq> Rewards_LOCATION_SHARING \<and>
   EditProfile_CAPT_BALANCE \<noteq> Rewards_CAPT_BALANCE"
  by (simp add: Rewards_loadLocationSharing_def saveLocationSharingState_def
      loadLocationSharingState_def getItem_def setItem_def log_call_def Let_def
      quiet_env_def empty_world_def initial_screen_def
      EditProfile_LOCATION_SHARING_def Rewards_LOCATION_SHARING_def
      EditProfile_CAPT_BALANCE_def Rewards_CAPT_BALANCE_def)

end
